theory Spec2Isabelle
  imports Complex_Main "HOL-Library.AList" "HOL-Library.Product_Lexorder" "HOL-Library.Multiset"
begin

section \<open>Synthetic water-consumption generators\<close>

text \<open>
  Two generators are embedded: the slot-grouped one of \<^verbatim>\<open>synthetic-generator-multi.py\<close>
  (functions \<open>generate_consumption_value\<close>, \<open>generate_meter_data\<close>,
  \<open>generate_synthetic_data\<close>) and the cluster one of \<^verbatim>\<open>water-consumption-generator.py\<close>
  (the methods of class \<open>WaterConsumptionGenerator\<close>, prefixed \<open>wcg_\<close> here because
  the two files use the same function names).

  Conventions of the embedding:
  \<^item> Python floats are real numbers; the one not-a-number the code can produce from finite
    inputs, \<open>np.sqrt\<close> of a negative variance, is the value \<open>None\<close> of \<open>real option\<close>.
    Infinities, rounding error and NaN literals in the pattern file are not modelled.
  \<^item> A JSON object is an association list in file order; a key that may be absent is an
    \<open>option\<close> field, and \<open>d[k]\<close> on an absent key is \<open>KeyError\<close>.
  \<^item> The process-global generator \<open>np.random\<close> is an explicit state: two streams of
    draws (uniform draws of \<open>random\<close>/\<open>choice\<close>, standard normal draws of \<open>normal\<close>)
    and the number of draws consumed from each.
  \<^item> An exception is the left summand of the result; the generator state at the raise is
    kept, since the cluster generator goes on drawing after a caught exception.
  \<^item> A timestamp is the number of minutes since 1970-01-01 00:00 (a Thursday).
\<close>

subsection \<open>Exceptions and the random source\<close>

datatype error = KeyError | ValueError | IndexError | OverflowError

record rng =
  uniforms :: "nat \<Rightarrow> real"
  gaussians :: "nat \<Rightarrow> real"
  upos :: nat
  gpos :: nat

type_synonym 'a gen = "rng \<Rightarrow> (error + 'a) \<times> rng"

definition returnG :: "'a \<Rightarrow> 'a gen" where
  "returnG x = (\<lambda>r. (Inr x, r))"

definition raiseG :: "error \<Rightarrow> 'a gen" where
  "raiseG e = (\<lambda>r. (Inl e, r))"

definition bindG :: "'a gen \<Rightarrow> ('a \<Rightarrow> 'b gen) \<Rightarrow> 'b gen" where
  "bindG m f = (\<lambda>r. case m r of (Inl e, r') \<Rightarrow> (Inl e, r') | (Inr x, r') \<Rightarrow> f x r')"

text \<open>\<open>d[k]\<close> for a key that may be absent, and \<open>xs[i]\<close> for a non-negative index.\<close>

definition getitem :: "'a option \<Rightarrow> 'a gen" where
  "getitem v = (case v of None \<Rightarrow> raiseG KeyError | Some x \<Rightarrow> returnG x)"

definition index :: "'a list \<Rightarrow> nat \<Rightarrow> 'a gen" where
  "index xs i = (if i < length xs then returnG (xs ! i) else raiseG IndexError)"

text \<open>\<open>np.random.random()\<close>: the next uniform draw.\<close>

definition np_random :: "real gen" where
  "np_random = (\<lambda>r. (Inr (uniforms r (upos r)), r\<lparr>upos := Suc (upos r)\<rparr>))"

text \<open>
  \<open>np.sqrt\<close> and \<open>np.random.normal(loc, scale)\<close>. A negative scale raises
  \<open>ValueError\<close>; a NaN scale passes numpy's check, consumes a draw and gives NaN.
\<close>

definition np_sqrt :: "real \<Rightarrow> real option" where
  "np_sqrt x = (if x < 0 then None else Some (sqrt x))"

definition np_normal :: "real \<Rightarrow> real \<Rightarrow> real gen" where
  "np_normal loc scale = (\<lambda>r.
     if scale < 0 then (Inl ValueError, r)
     else (Inr (loc + scale * gaussians r (gpos r)), r\<lparr>gpos := Suc (gpos r)\<rparr>))"

definition np_normal_nan :: "real \<Rightarrow> real option \<Rightarrow> real option gen" where
  "np_normal_nan loc scale =
     (case scale of
        None \<Rightarrow> (\<lambda>r. (Inr None, r\<lparr>gpos := Suc (gpos r)\<rparr>))
      | Some s \<Rightarrow> bindG (np_normal loc s) (\<lambda>x. returnG (Some x)))"

text \<open>
  \<open>np.random.choice(a, p=p)\<close> with the default \<open>size=None, replace=True\<close>:
  the population must not be empty, \<open>p\<close> must have its size, no negative entry, and a sum
  within \<open>sqrt(eps) = 2^-26\<close> of 1. The index is found by searching the normalised
  cumulative sums for one uniform draw (\<open>searchsorted(..., side='right')\<close>).
\<close>

definition atol :: real where
  "atol = 1 / 2 ^ 26"

fun cumsum :: "real \<Rightarrow> real list \<Rightarrow> real list" where
  "cumsum acc [] = []"
| "cumsum acc (x # xs) = (acc + x) # cumsum (acc + x) xs"

definition searchsorted_right :: "real list \<Rightarrow> real \<Rightarrow> nat" where
  "searchsorted_right cdf u = length (takeWhile (\<lambda>c. c \<le> u) cdf)"

definition choice_index :: "nat \<Rightarrow> real list \<Rightarrow> nat gen" where
  "choice_index pop_size p =
     (if pop_size = 0 then raiseG ValueError
      else if length p \<noteq> pop_size then raiseG ValueError
      else if list_ex (\<lambda>x. x < 0) p then raiseG ValueError
      else if \<bar>sum_list p - 1\<bar> > atol then raiseG ValueError
      else bindG np_random (\<lambda>u.
             let cdf = cumsum 0 p; cdf = map (\<lambda>c. c / last cdf) cdf
             in returnG (searchsorted_right cdf u)))"

text \<open>\<open>np.random.choice(n, p=p)\<close> for an integer \<open>n = len(...)\<close> returns the index.\<close>

definition np_choice_int :: "nat \<Rightarrow> real list \<Rightarrow> nat gen" where
  "np_choice_int n p = choice_index n p"

text \<open>\<open>np.random.choice(xs, p=p)\<close> for a list returns the element at the index.\<close>

definition np_choice_list :: "'a list \<Rightarrow> real list \<Rightarrow> 'a gen" where
  "np_choice_list xs p = bindG (choice_index (length xs) p) (\<lambda>idx. index xs idx)"

subsection \<open>Python built-ins\<close>

text \<open>\<open>round(x, 2)\<close>: to the nearest multiple of 0.01, a tie to the even one.\<close>

definition py_round2 :: "real \<Rightarrow> real" where
  "py_round2 x =
     (let y = x * 100; f = \<lfloor>y\<rfloor>; d = y - of_int f
      in (if d < 1 / 2 then of_int f
          else if 1 / 2 < d then of_int (f + 1)
          else if even f then of_int f else of_int (f + 1)) / 100)"

text \<open>\<open>str(n)\<close> of an integer: its decimal digits, with a minus sign when negative.\<close>

definition digit_char :: "nat \<Rightarrow> char" where
  "digit_char d = char_of (48 + d)"

fun str_nat :: "nat \<Rightarrow> string" where
  "str_nat n = (if n < 10 then [digit_char n] else str_nat (n div 10) @ [digit_char (n mod 10)])"

declare str_nat.simps [simp del]

definition py_str :: "int \<Rightarrow> string" where
  "py_str i = (if i < 0 then CHR ''-'' # str_nat (nat (- i)) else str_nat (nat i))"

text \<open>
  \<open>int(s)\<close> of a string: surrounding ASCII whitespace is dropped, then an optional sign and
  decimal digits, where single underscores may separate digits; anything else is
  \<open>ValueError\<close> (\<open>None\<close> here).
\<close>

definition is_space :: "char \<Rightarrow> bool" where
  "is_space c = (c \<in> set [CHR '' '', CHR 0x09, CHR 0x0A, CHR 0x0B, CHR 0x0C, CHR 0x0D])"

definition is_digit :: "char \<Rightarrow> bool" where
  "is_digit c = (48 \<le> (of_char c :: nat) \<and> (of_char c :: nat) \<le> 57)"

definition strip :: "string \<Rightarrow> string" where
  "strip s = rev (dropWhile is_space (rev (dropWhile is_space s)))"

fun parse_digits :: "nat \<Rightarrow> string \<Rightarrow> nat option" where
  "parse_digits acc [] = Some acc"
| "parse_digits acc [c] = (if is_digit c then Some (10 * acc + ((of_char c :: nat) - 48)) else None)"
| "parse_digits acc (c # d # cs) =
     (if is_digit c then
        (if d = CHR ''_'' then (if cs = [] then None else parse_digits (10 * acc + ((of_char c :: nat) - 48)) cs)
         else parse_digits (10 * acc + ((of_char c :: nat) - 48)) (d # cs))
      else None)"

definition py_int :: "string \<Rightarrow> int option" where
  "py_int s =
     (case strip s of
        [] \<Rightarrow> None
      | c # cs \<Rightarrow>
          if c = CHR ''-'' then (if cs = [] then None else map_option (\<lambda>n. - int n) (parse_digits 0 cs))
          else if c = CHR ''+'' then (if cs = [] then None else map_option int (parse_digits 0 cs))
          else map_option int (parse_digits 0 (c # cs)))"

subsection \<open>Timestamps\<close>

type_synonym timestamp = int

definition hour_of :: "timestamp \<Rightarrow> int" where
  "hour_of t = (t mod 1440) div 60"

definition minute_of :: "timestamp \<Rightarrow> int" where
  "minute_of t = t mod 60"

text \<open>\<open>weekday()\<close>: Monday is 0; day 0 of the epoch is a Thursday.\<close>

definition weekday :: "timestamp \<Rightarrow> int" where
  "weekday t = (t div 1440 + 3) mod 7"

definition day_name :: "timestamp \<Rightarrow> string" where
  "day_name t = [''Monday'', ''Tuesday'', ''Wednesday'', ''Thursday'', ''Friday'', ''Saturday'',
                 ''Sunday''] ! nat (weekday t)"

definition two_digits :: "int \<Rightarrow> string" where
  "two_digits n = [digit_char (nat n div 10), digit_char (nat n mod 10)]"

text \<open>\<open>timestamp.strftime('%H:%M')\<close>.\<close>

definition strftime_HM :: "timestamp \<Rightarrow> string" where
  "strftime_HM t = two_digits (hour_of t) @ '':'' @ two_digits (minute_of t)"

text \<open>\<open>pd.date_range(start, end, freq='15min')\<close>: start, start + 15, ... up to end.\<close>

definition date_range :: "timestamp \<Rightarrow> timestamp \<Rightarrow> timestamp list" where
  "date_range start end_date =
     (if end_date < start then []
      else map (\<lambda>k. start + 15 * int k) [0 ..< nat ((end_date - start) div 15) + 1])"

subsection \<open>Slot-grouped generator: the pattern file\<close>

text \<open>
  A day maps \<open>"HH:MM"\<close> to a slot object and \<open>"daily_sequence"\<close> to the peak and zero
  hours. Both kinds of object are values of one dictionary, so an entry is either; read as
  the other kind, it has none of the keys asked for.
\<close>

record transition_probs =
  zero_to_non_zero :: "real option"
  non_zero_to_zero :: "real option"

record stats =
  bs_mean :: "real option"
  bs_std :: "real option"
  bs_min :: "real option"
  bs_max :: "real option"

record slot =
  gmm_means :: "real list option"
  gmm_weights :: "real list option"
  gmm_covariances :: "real list option"
  percentiles :: "(string \<times> real) list option"
  common_values :: "real option"
  transitions :: "transition_probs option"
  zero_probability :: "real option"
  basic_stats :: "stats option"

record daily_sequence =
  peak_times :: "int list option"
  zero_periods :: "int list option"

datatype entry = Slot slot | Sequence daily_sequence

type_synonym day_patterns = "(string \<times> entry) list"
type_synonym patterns = "(string \<times> day_patterns) list"

definition empty_slot :: slot where
  "empty_slot = \<lparr>gmm_means = None, gmm_weights = None, gmm_covariances = None,
     percentiles = None, common_values = None, transitions = None, zero_probability = None,
     basic_stats = None\<rparr>"

definition slot_of :: "entry \<Rightarrow> slot" where
  "slot_of e = (case e of Slot s \<Rightarrow> s | Sequence d \<Rightarrow> empty_slot)"

definition sequence_of :: "entry \<Rightarrow> daily_sequence" where
  "sequence_of e = (case e of Sequence d \<Rightarrow> d | Slot s \<Rightarrow> \<lparr>peak_times = None, zero_periods = None\<rparr>)"

text \<open>Truth value of a dictionary: it has at least one key.\<close>

definition truthy :: "entry \<Rightarrow> bool" where
  "truthy e = (case e of
       Slot s \<Rightarrow> s \<noteq> empty_slot
     | Sequence d \<Rightarrow> peak_times d \<noteq> None \<or> zero_periods d \<noteq> None)"

record reading =
  OBJECTID :: int
  TimeStamp :: timestamp
  Consumption :: real

subsection \<open>Slot-grouped generator: \<open>generate_consumption_value\<close>\<close>

text \<open>
  The function has two parts: the occupancy step (``determine if this should be a zero or
  non-zero value'') and the draw from the mixture (``generate non-zero value using mixture
  model'').
\<close>

definition should_be_zero :: "slot \<Rightarrow> real \<Rightarrow> bool gen" where
  "should_be_zero pattern previous_value =
     (let is_currently_zero = (previous_value = 0) in
      bindG np_random (\<lambda>random_val.
      bindG (getitem (transitions pattern)) (\<lambda>tr.
      if is_currently_zero
      then bindG (getitem (zero_to_non_zero tr)) (\<lambda>p.
             returnG (if random_val < p then False else True))
      else bindG (getitem (non_zero_to_zero tr)) (\<lambda>p.
             returnG (if random_val < p then True else False)))))"

definition mixture_value :: "slot \<Rightarrow> real gen" where
  "mixture_value pattern =
     bindG (getitem (gmm_means pattern)) (\<lambda>means.
     bindG (getitem (gmm_weights pattern)) (\<lambda>weights.
     bindG (np_choice_int (length means) weights) (\<lambda>component.
     bindG (index means component) (\<lambda>mu.
     bindG (getitem (gmm_covariances pattern)) (\<lambda>covs.
     bindG (index covs component) (\<lambda>cov.
     bindG (np_normal_nan mu (np_sqrt cov)) (\<lambda>value.
     bindG (getitem (basic_stats pattern)) (\<lambda>bs.
     bindG (getitem (bs_min bs)) (\<lambda>lo.
     bindG (getitem (bs_max bs)) (\<lambda>hi.
     let value = max lo (case value of None \<Rightarrow> hi | Some v \<Rightarrow> min hi v) in
     bindG np_random (\<lambda>u.
     bindG (if u < 0.2 then getitem (common_values pattern) else returnG value) (\<lambda>value.
     returnG (max 0 value)))))))))))))"

definition generate_consumption_value :: "slot \<Rightarrow> real \<Rightarrow> real gen" where
  "generate_consumption_value pattern previous_value =
     bindG (should_be_zero pattern previous_value) (\<lambda>zero.
     if zero then returnG 0 else mixture_value pattern)"

subsection \<open>Slot-grouped generator: \<open>generate_meter_data\<close>\<close>

text \<open>The list comprehension over \<open>gmm_means\<close>: one normal draw per mean.\<close>

fun vary_means :: "real \<Rightarrow> real list \<Rightarrow> real list gen" where
  "vary_means variation_factor [] = returnG []"
| "vary_means variation_factor (m # ms) =
     bindG (np_normal 0 variation_factor) (\<lambda>z.
     bindG (vary_means variation_factor ms) (\<lambda>rest.
     returnG (m * (1 + z) # rest)))"

text \<open>The dictionary display \<open>varied_pattern\<close>, its values evaluated in source order.\<close>

definition vary_slot :: "real \<Rightarrow> slot \<Rightarrow> slot gen" where
  "vary_slot variation_factor time_pattern =
     bindG (getitem (gmm_means time_pattern)) (\<lambda>means.
     bindG (vary_means variation_factor means) (\<lambda>means'.
     bindG (getitem (gmm_weights time_pattern)) (\<lambda>weights.
     bindG (getitem (gmm_covariances time_pattern)) (\<lambda>covs.
     bindG (getitem (percentiles time_pattern)) (\<lambda>perc.
     bindG (getitem (common_values time_pattern)) (\<lambda>common.
     bindG (np_normal 0 variation_factor) (\<lambda>z1.
     bindG (getitem (transitions time_pattern)) (\<lambda>tr.
     bindG (getitem (zero_probability time_pattern)) (\<lambda>zp.
     bindG (getitem (basic_stats time_pattern)) (\<lambda>bs.
     bindG (getitem (bs_mean bs)) (\<lambda>mean.
     bindG (np_normal 0 variation_factor) (\<lambda>z2.
     bindG (getitem (bs_std bs)) (\<lambda>std.
     bindG (getitem (bs_min bs)) (\<lambda>lo.
     bindG (getitem (bs_max bs)) (\<lambda>hi.
     returnG \<lparr>gmm_means = Some means', gmm_weights = Some weights,
       gmm_covariances = Some covs, percentiles = Some perc,
       common_values = Some (common * (1 + z1)), transitions = Some tr,
       zero_probability = Some zp,
       basic_stats = Some \<lparr>bs_mean = Some (mean * (1 + z2)), bs_std = Some std,
         bs_min = Some lo, bs_max = Some hi\<rparr>\<rparr>)))))))))))))))"

text \<open>The inner loop over \<open>patterns[day].items()\<close>, filling \<open>meter_patterns[day]\<close>.\<close>

fun vary_day :: "real \<Rightarrow> day_patterns \<Rightarrow> day_patterns \<Rightarrow> day_patterns gen" where
  "vary_day variation_factor [] acc = returnG acc"
| "vary_day variation_factor ((time, time_pattern) # rest) acc =
     (if time = ''daily_sequence''
      then vary_day variation_factor rest (AList.update time time_pattern acc)
      else bindG (vary_slot variation_factor (slot_of time_pattern)) (\<lambda>varied_pattern.
           vary_day variation_factor rest (AList.update time (Slot varied_pattern) acc)))"

text \<open>The outer loop over \<open>patterns.keys()\<close>, filling \<open>meter_patterns\<close>.\<close>

fun vary_patterns :: "real \<Rightarrow> patterns \<Rightarrow> patterns \<Rightarrow> patterns gen" where
  "vary_patterns variation_factor [] acc = returnG acc"
| "vary_patterns variation_factor ((day, day_entries) # rest) acc =
     (if day = ''global_patterns'' then vary_patterns variation_factor rest acc
      else bindG (vary_day variation_factor day_entries []) (\<lambda>varied_day.
           vary_patterns variation_factor rest (AList.update day varied_day acc)))"

text \<open>
  The body of the loop over \<open>date_range\<close> in three parts: the value drawn according
  to the kind of hour, the variation added to a positive value, and the whole iteration,
  which gives the reading appended and the value of \<open>previous_value\<close> after it.
\<close>

definition hour_value :: "slot \<Rightarrow> bool \<Rightarrow> bool \<Rightarrow> real \<Rightarrow> real gen" where
  "hour_value time_pattern is_peak_hour is_zero_hour previous_value =
     (if is_peak_hour then
        bindG (generate_consumption_value time_pattern previous_value) (\<lambda>consumption.
        if consumption = 0 then
          bindG np_random (\<lambda>u.
          if u < 0.7 then generate_consumption_value time_pattern previous_value
          else returnG consumption)
        else returnG consumption)
      else if is_zero_hour then
        bindG np_random (\<lambda>u.
        if u < 0.8 then returnG 0
        else generate_consumption_value time_pattern previous_value)
      else generate_consumption_value time_pattern previous_value)"

definition add_variation :: "slot \<Rightarrow> real \<Rightarrow> real gen" where
  "add_variation time_pattern consumption =
     (if consumption > 0 then
        bindG (getitem (basic_stats time_pattern)) (\<lambda>bs.
        bindG (getitem (bs_std bs)) (\<lambda>std.
        bindG (np_normal 0 (std * 0.1)) (\<lambda>variation.
        returnG (max 0 (consumption + variation)))))
      else returnG consumption)"

definition day_patterns_at :: "patterns \<Rightarrow> timestamp \<Rightarrow> day_patterns" where
  "day_patterns_at meter_patterns ts =
     (case map_of meter_patterns (day_name ts) of None \<Rightarrow> [] | Some d \<Rightarrow> d)"

text \<open>The test \<open>time_pattern and 'daily_sequence' in day_patterns\<close>.\<close>

definition has_pattern :: "patterns \<Rightarrow> timestamp \<Rightarrow> bool" where
  "has_pattern meter_patterns ts =
     ((case map_of (day_patterns_at meter_patterns ts) (strftime_HM ts) of
         None \<Rightarrow> False | Some e \<Rightarrow> truthy e)
      \<and> map_of (day_patterns_at meter_patterns ts) ''daily_sequence'' \<noteq> None)"

definition meter_step :: "patterns \<Rightarrow> int \<Rightarrow> timestamp \<Rightarrow> real \<Rightarrow> (reading \<times> real) gen" where
  "meter_step meter_patterns object_id ts previous_value =
     (let hour = hour_of ts;
          day_patterns = day_patterns_at meter_patterns ts;
          time_pattern = map_of day_patterns (strftime_HM ts)
      in
      bindG
        (if has_pattern meter_patterns ts
         then
           bindG (getitem (map_of day_patterns ''daily_sequence'')) (\<lambda>ds.
           bindG (getitem (peak_times (sequence_of ds))) (\<lambda>peaks.
           bindG (getitem (zero_periods (sequence_of ds))) (\<lambda>zeros.
           let is_peak_hour = (hour \<in> set peaks); is_zero_hour = (hour \<in> set zeros) in
           bindG (hour_value (slot_of (the time_pattern)) is_peak_hour is_zero_hour
                    previous_value) (\<lambda>consumption.
           bindG (add_variation (slot_of (the time_pattern)) consumption) (\<lambda>consumption.
           returnG (consumption, consumption))))))
         else returnG (0, previous_value))
        (\<lambda>(consumption, previous_value').
           returnG (\<lparr>OBJECTID = object_id, TimeStamp = ts,
                      Consumption = py_round2 consumption\<rparr>, previous_value')))"

text \<open>The loop over \<open>date_range\<close>: the rows appended and the final \<open>previous_value\<close>.\<close>

fun meter_loop :: "patterns \<Rightarrow> int \<Rightarrow> timestamp list \<Rightarrow> real \<Rightarrow> (reading list \<times> real) gen" where
  "meter_loop meter_patterns object_id [] previous_value = returnG ([], previous_value)"
| "meter_loop meter_patterns object_id (ts # rest) previous_value =
     bindG (meter_step meter_patterns object_id ts previous_value) (\<lambda>(row, previous_value').
     bindG (meter_loop meter_patterns object_id rest previous_value') (\<lambda>(rows, final).
     returnG (row # rows, final)))"

text \<open>
  \<open>generate_meter_data\<close> up to its last line, with the final \<open>previous_value\<close> kept,
  and the function itself, which returns the rows.
\<close>

definition generate_meter_run ::
    "patterns \<Rightarrow> timestamp \<Rightarrow> timestamp \<Rightarrow> int \<Rightarrow> real \<Rightarrow> (reading list \<times> real) gen" where
  "generate_meter_run patterns start_date end_date object_id variation_factor =
     bindG (vary_patterns variation_factor patterns []) (\<lambda>meter_patterns.
     meter_loop meter_patterns object_id (date_range start_date end_date) 0)"

definition generate_meter_data ::
    "patterns \<Rightarrow> timestamp \<Rightarrow> timestamp \<Rightarrow> int \<Rightarrow> real \<Rightarrow> reading list gen" where
  "generate_meter_data patterns start_date end_date object_id variation_factor =
     bindG (generate_meter_run patterns start_date end_date object_id variation_factor)
       (\<lambda>(synthetic_data, final). returnG synthetic_data)"

subsection \<open>Slot-grouped generator: \<open>generate_synthetic_data\<close>\<close>

text \<open>
  The workers share the global generator and finish in any order. Worker \<open>i\<close> sees some
  sequence of draws, \<open>draws i\<close>; \<open>completed\<close> lists the workers in the order
  \<open>as_completed\<close> yields them. A worker that raised adds nothing to \<open>all_data\<close>.
  \<open>pd.concat\<close> raises \<open>ValueError\<close> on an empty list, and \<open>sort_values\<close> raises
  \<open>KeyError\<close> on a frame without rows, which has no columns either.
\<close>

definition sort_rows :: "reading list \<Rightarrow> reading list" where
  "sort_rows rows = sort_key (\<lambda>r. (TimeStamp r, OBJECTID r)) rows"

definition generate_synthetic_data ::
    "patterns \<Rightarrow> timestamp \<Rightarrow> timestamp \<Rightarrow> int \<Rightarrow> int \<Rightarrow> real \<Rightarrow> (nat \<Rightarrow> rng) \<Rightarrow> nat list
      \<Rightarrow> error + reading list" where
  "generate_synthetic_data patterns start_date end_date num_meters base_object_id
       variation_factor draws completed =
     (let future = (\<lambda>i. fst (generate_meter_data patterns start_date end_date
                                (base_object_id + int i) variation_factor (draws i)));
          all_data = concat (map (\<lambda>i. case future i of Inl e \<Rightarrow> [] | Inr meter_data \<Rightarrow> [meter_data])
                               (filter (\<lambda>i. i < nat num_meters) completed));
          final_df = concat all_data
      in if all_data = [] then Inl ValueError
         else if final_df = [] then Inl KeyError
         else Inr (sort_rows final_df))"

subsection \<open>Cluster generator: the pattern file\<close>

record gmm_params =
  means :: "real list option"
  weights :: "real list option"
  covars :: "real list option"

record temporal_entry =
  mean :: "real option"

record temporal =
  hourly_patterns :: "(string \<times> temporal_entry) list option"
  weekly_patterns :: "(string \<times> temporal_entry) list option"

type_synonym state_transitions = "(string \<times> (string \<times> real) list) list"

record cluster_pattern =
  gmm :: "gmm_params option"
  temporal_patterns :: "temporal option"
  wcg_transitions :: "state_transitions option"

record patterns_data =
  cluster_probabilities :: "(string \<times> real) list option"
  wcg_patterns :: "(string \<times> cluster_pattern) list option"

record wcg_record =
  wcg_TimeStamp :: timestamp
  wcg_Consumption :: real
  Cluster :: int

record wcg_meter_record = wcg_record +
  MeterID :: int

subsection \<open>Cluster generator: the methods of \<open>WaterConsumptionGenerator\<close>\<close>

definition wcg_assign_cluster :: "(string \<times> real) list \<Rightarrow> string gen" where
  "wcg_assign_cluster cluster_probs =
     (let clusters = map fst cluster_probs; probabilities = map snd cluster_probs
      in np_choice_list clusters probabilities)"

text \<open>The list comprehension \<open>[int(s) for s in probs.keys()]\<close>.\<close>

fun parse_states :: "string list \<Rightarrow> int list gen" where
  "parse_states [] = returnG []"
| "parse_states (s # ss) =
     (case py_int s of
        None \<Rightarrow> raiseG ValueError
      | Some n \<Rightarrow> bindG (parse_states ss) (\<lambda>rest. returnG (n # rest)))"

definition wcg_generate_consumption_state :: "int \<Rightarrow> state_transitions \<Rightarrow> int gen" where
  "wcg_generate_consumption_state current_state transitions_arg =
     (let probs = (case map_of transitions_arg (py_str current_state) of
                     None \<Rightarrow> [(''0'', 0.5), (''1'', 0.5)]
                   | Some d \<Rightarrow> d)
      in bindG (parse_states (map fst probs)) (\<lambda>states.
         let probabilities = map snd probs
         in np_choice_list states probabilities))"

text \<open>The body of the \<open>try\<close> block of \<open>generate_consumption_value\<close>.\<close>

definition wcg_value_body :: "gmm_params option \<Rightarrow> temporal \<Rightarrow> int \<Rightarrow> int \<Rightarrow> real gen" where
  "wcg_value_body params temporal hour day_of_week =
     (case params of
        None \<Rightarrow> returnG 0
      | Some g \<Rightarrow>
          bindG (getitem (means g)) (\<lambda>ms.
          bindG (getitem (weights g)) (\<lambda>ws.
          bindG (np_choice_int (length ms) ws) (\<lambda>component.
          bindG (index ms component) (\<lambda>mu.
          bindG (getitem (covars g)) (\<lambda>cs.
          bindG (index cs component) (\<lambda>cov.
          bindG (np_normal_nan mu (np_sqrt cov)) (\<lambda>base_value.
          let hourly = (case hourly_patterns temporal of None \<Rightarrow> [] | Some h \<Rightarrow> h);
              weekly = (case weekly_patterns temporal of None \<Rightarrow> [] | Some w \<Rightarrow> w);
              hourly_factor = (case map_of hourly (py_str hour) of
                                 None \<Rightarrow> 1
                               | Some e \<Rightarrow> (case mean e of None \<Rightarrow> 1 | Some m \<Rightarrow> m));
              weekly_factor = (case map_of weekly (py_str day_of_week) of
                                 None \<Rightarrow> 1
                               | Some e \<Rightarrow> (case mean e of None \<Rightarrow> 1 | Some m \<Rightarrow> m))
          in
          bindG (np_normal 0 0.1) (\<lambda>variation.
          let adjusted_value =
                (case base_value of
                   None \<Rightarrow> 0
                 | Some b \<Rightarrow> max 0 (b * (hourly_factor + weekly_factor) / 2 + variation))
          in returnG (py_round2 adjusted_value))))))))))"

text \<open>\<open>except Exception: ... return 0\<close>: every exception of the body becomes the value 0.\<close>

definition wcg_generate_consumption_value ::
    "gmm_params option \<Rightarrow> temporal \<Rightarrow> int \<Rightarrow> int \<Rightarrow> real gen" where
  "wcg_generate_consumption_value params temporal hour day_of_week = (\<lambda>r.
     case wcg_value_body params temporal hour day_of_week r of
       (Inl e, r') \<Rightarrow> (Inr 0, r')
     | (Inr v, r') \<Rightarrow> (Inr v, r'))"

text \<open>
  \<open>current_time += timedelta(minutes=time_interval)\<close>; a \<open>datetime\<close> lies between
  0001-01-01 00:00 and 9999-12-31 23:59, beyond is \<open>OverflowError\<close>.
\<close>

definition add_minutes :: "timestamp \<Rightarrow> int \<Rightarrow> timestamp gen" where
  "add_minutes t m =
     (if t + m < - 1035593280 \<or> 4223371679 < t + m then raiseG OverflowError
      else returnG (t + m))"

definition default_transitions :: state_transitions where
  "default_transitions = [(''0'', [(''0'', 0.5), (''1'', 0.5)])]"

definition empty_temporal :: temporal where
  "empty_temporal = \<lparr>hourly_patterns = None, weekly_patterns = None\<rparr>"

text \<open>One iteration of \<open>for _ in range(num_periods)\<close>: the row, the next time and state.\<close>

definition wcg_meter_step ::
    "cluster_pattern \<Rightarrow> string \<Rightarrow> timestamp \<Rightarrow> int \<Rightarrow> int \<Rightarrow> (wcg_record \<times> timestamp \<times> int) gen" where
  "wcg_meter_step cluster_patterns cluster current_time current_state time_interval =
     (let hour = hour_of current_time; day_of_week = weekday current_time in
      bindG (wcg_generate_consumption_state current_state
               (case wcg_transitions cluster_patterns of
                  None \<Rightarrow> default_transitions | Some t \<Rightarrow> t)) (\<lambda>current_state.
      bindG (if current_state = 0 then returnG 0
             else wcg_generate_consumption_value (gmm cluster_patterns)
                    (case temporal_patterns cluster_patterns of
                       None \<Rightarrow> empty_temporal | Some t \<Rightarrow> t)
                    hour day_of_week) (\<lambda>consumption.
      bindG (case py_int cluster of None \<Rightarrow> raiseG ValueError | Some c \<Rightarrow> returnG c) (\<lambda>c.
      bindG (add_minutes current_time time_interval) (\<lambda>next_time.
      returnG (\<lparr>wcg_TimeStamp = current_time, wcg_Consumption = consumption, Cluster = c\<rparr>,
               next_time, current_state))))))"

fun wcg_meter_loop ::
    "cluster_pattern \<Rightarrow> string \<Rightarrow> nat \<Rightarrow> timestamp \<Rightarrow> int \<Rightarrow> int \<Rightarrow> wcg_record list gen" where
  "wcg_meter_loop cluster_patterns cluster 0 current_time current_state time_interval = returnG []"
| "wcg_meter_loop cluster_patterns cluster (Suc n) current_time current_state time_interval =
     bindG (wcg_meter_step cluster_patterns cluster current_time current_state time_interval)
       (\<lambda>(row, next_time, next_state).
     bindG (wcg_meter_loop cluster_patterns cluster n next_time next_state time_interval) (\<lambda>rows.
     returnG (row # rows)))"

text \<open>\<open>range(num_periods)\<close> is empty for a negative \<open>num_periods\<close>.\<close>

definition wcg_generate_meter_data ::
    "(string \<times> cluster_pattern) list \<Rightarrow> string \<Rightarrow> timestamp \<Rightarrow> int \<Rightarrow> int \<Rightarrow> wcg_record list gen" where
  "wcg_generate_meter_data pats cluster start_date num_periods time_interval =
     bindG (getitem (map_of pats cluster)) (\<lambda>cluster_patterns.
     wcg_meter_loop cluster_patterns cluster (nat num_periods) start_date 0 time_interval)"

text \<open>\<open>record['MeterID'] = meter_id\<close>.\<close>

definition add_meter_id :: "int \<Rightarrow> wcg_record \<Rightarrow> wcg_meter_record" where
  "add_meter_id meter_id row =
     \<lparr>wcg_TimeStamp = wcg_TimeStamp row, wcg_Consumption = wcg_Consumption row,
      Cluster = Cluster row, MeterID = meter_id\<rparr>"

text \<open>
  The body of the \<open>try\<close> block inside the loop over meters, and the loop: an exception
  skips the meter (\<open>continue\<close>), the generator state stays as the failed attempt left it.
\<close>

definition wcg_one_meter ::
    "patterns_data \<Rightarrow> int \<Rightarrow> timestamp \<Rightarrow> int \<Rightarrow> int \<Rightarrow> wcg_meter_record list gen" where
  "wcg_one_meter pd meter_id start_datetime num_periods time_interval =
     bindG (getitem (cluster_probabilities pd)) (\<lambda>cluster_probs.
     bindG (wcg_assign_cluster cluster_probs) (\<lambda>cluster.
     bindG (getitem (wcg_patterns pd)) (\<lambda>pats.
     bindG (wcg_generate_meter_data pats cluster start_datetime num_periods time_interval)
       (\<lambda>meter_data.
     returnG (map (add_meter_id meter_id) meter_data)))))"

fun wcg_meters_loop ::
    "patterns_data \<Rightarrow> int list \<Rightarrow> timestamp \<Rightarrow> int \<Rightarrow> int \<Rightarrow> wcg_meter_record list \<Rightarrow> rng
      \<Rightarrow> wcg_meter_record list \<times> rng" where
  "wcg_meters_loop pd [] start_datetime num_periods time_interval all_data r = (all_data, r)"
| "wcg_meters_loop pd (meter_id # rest) start_datetime num_periods time_interval all_data r =
     (case wcg_one_meter pd meter_id start_datetime num_periods time_interval r of
        (Inl e, r') \<Rightarrow> wcg_meters_loop pd rest start_datetime num_periods time_interval all_data r'
      | (Inr meter_data, r') \<Rightarrow>
          wcg_meters_loop pd rest start_datetime num_periods time_interval
            (all_data @ meter_data) r')"

text \<open>The rows written to the output file, in the order of \<open>all_data\<close>.\<close>

definition wcg_generate_synthetic_data ::
    "patterns_data \<Rightarrow> int \<Rightarrow> int \<Rightarrow> int \<Rightarrow> timestamp \<Rightarrow> rng \<Rightarrow> wcg_meter_record list" where
  "wcg_generate_synthetic_data pd num_meters num_periods time_interval start_datetime r =
     fst (wcg_meters_loop pd [1 .. num_meters] start_datetime num_periods time_interval [] r)"

subsection \<open>Example inputs\<close>

text \<open>
  A slot-grouped pattern file with one slot, Thursday 00:00, which leaves the zero state at
  once and draws the value 10; a cluster pattern file with one cluster that does the
  same; and a random source whose uniform draws are all 1/2 and normal draws all 0.
\<close>

definition ex_slot :: slot where
  "ex_slot = \<lparr>gmm_means = Some [10], gmm_weights = Some [1], gmm_covariances = Some [0],
     percentiles = Some [], common_values = Some 5,
     transitions = Some \<lparr>zero_to_non_zero = Some 1, non_zero_to_zero = Some 0\<rparr>,
     zero_probability = Some (1 / 2),
     basic_stats = Some \<lparr>bs_mean = Some 10, bs_std = Some 1, bs_min = Some 0,
       bs_max = Some 20\<rparr>\<rparr>"

definition ex_sequence :: daily_sequence where
  "ex_sequence = \<lparr>peak_times = Some [], zero_periods = Some []\<rparr>"

definition ex_patterns :: patterns where
  "ex_patterns = [(''Thursday'', [(''00:00'', Slot ex_slot), (''daily_sequence'', Sequence ex_sequence)])]"

definition ex_rng :: rng where
  "ex_rng = \<lparr>uniforms = (\<lambda>_. 1 / 2), gaussians = (\<lambda>_. 0), upos = 0, gpos = 0\<rparr>"

definition ex_cluster :: cluster_pattern where
  "ex_cluster = \<lparr>gmm = Some \<lparr>means = Some [10], weights = Some [1], covars = Some [0]\<rparr>,
     temporal_patterns = None,
     wcg_transitions = Some [(''0'', [(''0'', 0), (''1'', 1)]), (''1'', [(''1'', 1)])]\<rparr>"

definition ex_data :: patterns_data where
  "ex_data = \<lparr>cluster_probabilities = Some [(''0'', 1)],
     wcg_patterns = Some [(''0'', ex_cluster)]\<rparr>"



definition ex_slot_empty :: slot where
  "ex_slot_empty = ex_slot\<lparr>gmm_means := Some [], gmm_weights := Some [],
     gmm_covariances := Some []\<rparr>"

definition ex_slot_stay_zero :: slot where
  "ex_slot_stay_zero =
     ex_slot\<lparr>transitions := Some \<lparr>zero_to_non_zero = Some 0, non_zero_to_zero = None\<rparr>\<rparr>"

definition ex_day :: "slot \<Rightarrow> patterns" where
  "ex_day sl = [(''Thursday'', [(''00:00'', Slot sl), (''daily_sequence'', Sequence ex_sequence)])]"


definition ex_gmm_empty :: gmm_params where
  "ex_gmm_empty = \<lparr>means = Some [], weights = Some [], covars = Some []\<rparr>"

definition ex_rng_one :: rng where
  "ex_rng_one = \<lparr>uniforms = (\<lambda>_. 1 / 2), gaussians = (\<lambda>_. 1), upos = 0, gpos = 0\<rparr>"

text \<open>
  Patterns for the zero chain: two slots with \<open>{zero_to_non_zero: 0.0}\<close> in a peak hour;
  and patterns with a gap: a slot at 00:00 that leaves zero, none at 00:15, and at 00:30 a
  slot that keeps whatever state it is in.
\<close>

definition ex_patterns_zero :: patterns where
  "ex_patterns_zero =
     [(''Thursday'', [(''00:00'', Slot ex_slot_stay_zero), (''00:15'', Slot ex_slot_stay_zero),
        (''daily_sequence'', Sequence \<lparr>peak_times = Some [0], zero_periods = Some []\<rparr>)])]"






section \<open>Basic facts\<close>

subsection \<open>Results of the primitive steps\<close>

lemma returnG_eq [simp]: "returnG x r = (res, r') \<longleftrightarrow> res = Inr x \<and> r' = r"
  by (auto simp: returnG_def)

lemma raiseG_eq [simp]: "raiseG e r = (res, r') \<longleftrightarrow> res = Inl e \<and> r' = r"
  by (auto simp: raiseG_def)

lemma bindG_Inr:
  "bindG m f r = (Inr y, r') \<longleftrightarrow> (\<exists>x r1. m r = (Inr x, r1) \<and> f x r1 = (Inr y, r'))"
  by (auto simp: bindG_def split: prod.splits sum.splits)

lemma getitem_Inr [simp]: "getitem v r = (Inr x, r') \<longleftrightarrow> v = Some x \<and> r' = r"
  by (auto simp: getitem_def split: option.splits)

lemma index_Inr [simp]:
  "index xs i r = (Inr x, r') \<longleftrightarrow> i < length xs \<and> x = xs ! i \<and> r' = r"
  by (auto simp: index_def)

lemma np_random_eq [simp]:
  "np_random r = (res, r') \<longleftrightarrow>
     res = Inr (uniforms r (upos r)) \<and> r' = r\<lparr>upos := Suc (upos r)\<rparr>"
  by (auto simp: np_random_def)

lemma np_normal_Inr [simp]:
  "np_normal loc s r = (Inr x, r') \<longleftrightarrow>
     0 \<le> s \<and> x = loc + s * gaussians r (gpos r) \<and> r' = r\<lparr>gpos := Suc (gpos r)\<rparr>"
  by (auto simp: np_normal_def)

lemma fst_eq_Inr: "fst (m r) = Inr x \<longleftrightarrow> (\<exists>r'. m r = (Inr x, r'))"
  by (cases "m r") auto

subsection \<open>Evaluation on literals\<close>

lemmas gen_defs = bindG_def returnG_def raiseG_def getitem_def index_def np_random_def
  np_normal_def np_normal_nan_def np_sqrt_def np_choice_int_def np_choice_list_def
  choice_index_def atol_def searchsorted_right_def

lemma digit_char_simps:
  "digit_char 0 = CHR ''0''" "digit_char (Suc 0) = CHR ''1''" "digit_char 1 = CHR ''1''"
  "digit_char 2 = CHR ''2''" "digit_char 3 = CHR ''3''" "digit_char 4 = CHR ''4''"
  "digit_char 5 = CHR ''5''" "digit_char 6 = CHR ''6''" "digit_char 7 = CHR ''7''"
  "digit_char 8 = CHR ''8''" "digit_char 9 = CHR ''9''"
  by code_simp+

lemma py_str_simps: "py_str 0 = ''0''" "py_str 1 = ''1''"
  by (simp_all add: py_str_def str_nat.simps digit_char_simps)

lemma py_int_simps: "py_int ''0'' = Some 0" "py_int ''1'' = Some 1"
  by (simp_all add: py_int_def strip_def is_space_def is_digit_def)

lemma day_name_0: "day_name 0 = ''Thursday''" "day_name 15 = ''Thursday''"
  by (simp_all add: day_name_def weekday_def)

lemma strftime_HM_0: "strftime_HM 0 = ''00:00''" "strftime_HM 15 = ''00:15''"
  by (simp_all add: strftime_HM_def two_digits_def hour_of_def minute_of_def digit_char_simps)

lemma date_range_0_15: "date_range 0 15 = [0, 15]"
  by (simp add: date_range_def upt_rec)

lemmas slot_run_defs = generate_meter_data_def generate_meter_run_def vary_slot_def slot_of_def
  meter_step_def has_pattern_def day_patterns_at_def truthy_def empty_slot_def sequence_of_def
  hour_value_def add_variation_def generate_consumption_value_def should_be_zero_def
  mixture_value_def py_round2_def hour_of_def
  day_name_0 strftime_HM_0 Let_def

lemmas cluster_run_defs = wcg_generate_meter_data_def wcg_meter_step_def
  wcg_generate_consumption_state_def wcg_generate_consumption_value_def wcg_value_body_def
  py_str_simps py_int_simps add_minutes_def empty_temporal_def default_transitions_def
  hour_of_def weekday_def py_round2_def Let_def

lemma ex_meter_run:
  "fst (generate_meter_run ex_patterns 0 15 7 (1 / 10) ex_rng) =
     Inr ([\<lparr>OBJECTID = 7, TimeStamp = 0, Consumption = 10\<rparr>,
           \<lparr>OBJECTID = 7, TimeStamp = 15, Consumption = 0\<rparr>], 10)"
  by (simp add: date_range_0_15 ex_patterns_def ex_slot_def ex_sequence_def ex_rng_def
      slot_run_defs gen_defs)

lemma ex_meter_data:
  "fst (generate_meter_data ex_patterns 0 15 7 (1 / 10) ex_rng) =
     Inr [\<lparr>OBJECTID = 7, TimeStamp = 0, Consumption = 10\<rparr>,
          \<lparr>OBJECTID = 7, TimeStamp = 15, Consumption = 0\<rparr>]"
  by (simp add: date_range_0_15 ex_patterns_def ex_slot_def ex_sequence_def ex_rng_def
      slot_run_defs gen_defs)

lemma ex_cluster_meter_data:
  "fst (wcg_generate_meter_data [(''0'', ex_cluster)] ''0'' 0 2 15 ex_rng) =
     Inr [\<lparr>wcg_TimeStamp = 0, wcg_Consumption = 10, Cluster = 0\<rparr>,
          \<lparr>wcg_TimeStamp = 15, wcg_Consumption = 10, Cluster = 0\<rparr>]"
  by (simp add: ex_cluster_def ex_rng_def cluster_run_defs gen_defs numeral_2_eq_2)

subsection \<open>Non-negative values\<close>

lemma py_round2_nonneg: "0 \<le> x \<Longrightarrow> 0 \<le> py_round2 x"
proof -
  assume "0 \<le> x"
  then have "0 \<le> \<lfloor>x * 100\<rfloor>" by simp
  then show ?thesis by (simp add: py_round2_def Let_def)
qed

lemma py_round2_zero [simp]: "py_round2 0 = 0"
  by (simp add: py_round2_def)

lemma gcv_nonneg:
  "generate_consumption_value pattern previous_value r = (Inr v, r') \<Longrightarrow> 0 \<le> v"
  unfolding generate_consumption_value_def mixture_value_def Let_def
  by (auto simp: bindG_Inr split: if_splits)

lemma hour_value_nonneg: "hour_value p pk zr prev r = (Inr v, r') \<Longrightarrow> 0 \<le> v"
  unfolding hour_value_def
  by (auto simp: bindG_Inr split: if_splits dest: gcv_nonneg)

lemma add_variation_nonneg: "add_variation p c r = (Inr v, r') \<Longrightarrow> 0 \<le> c \<Longrightarrow> 0 \<le> v"
  unfolding add_variation_def
  by (auto simp: bindG_Inr split: if_splits)

lemma meter_step_nonneg:
  "meter_step mp oid ts prev r = (Inr (row, prev'), r') \<Longrightarrow> 0 \<le> Consumption row"
  unfolding meter_step_def Let_def
  by (auto simp: bindG_Inr split: if_splits
      dest!: hour_value_nonneg add_variation_nonneg intro: py_round2_nonneg)

lemma meter_loop_nonneg:
  "meter_loop mp oid tss prev r = (Inr (rows, final), r') \<Longrightarrow>
     \<forall>row \<in> set rows. 0 \<le> Consumption row"
proof (induction tss arbitrary: prev r rows final)
  case Nil
  then show ?case by simp
next
  case (Cons ts tss)
  then show ?case
    by (auto simp: bindG_Inr dest: meter_step_nonneg)
qed

lemma generate_meter_data_nonneg:
  "generate_meter_data ps s e oid v r = (Inr rows, r') \<Longrightarrow>
     \<forall>row \<in> set rows. 0 \<le> Consumption row"
  unfolding generate_meter_data_def generate_meter_run_def
  by (auto simp: bindG_Inr dest: meter_loop_nonneg)

lemma wcg_value_nonneg:
  "wcg_generate_consumption_value g t h d r = (Inr v, r') \<Longrightarrow> 0 \<le> v"
  unfolding wcg_generate_consumption_value_def wcg_value_body_def Let_def
  by (auto simp: bindG_Inr split: prod.splits sum.splits option.splits
      intro!: py_round2_nonneg)

lemma wcg_meter_step_nonneg:
  "wcg_meter_step cp c t st iv r = (Inr (row, t', st'), r') \<Longrightarrow> 0 \<le> wcg_Consumption row"
  unfolding wcg_meter_step_def Let_def
  by (auto simp: bindG_Inr split: if_splits option.splits dest: wcg_value_nonneg)

lemma wcg_meter_loop_nonneg:
  "wcg_meter_loop cp c n t st iv r = (Inr rows, r') \<Longrightarrow>
     \<forall>row \<in> set rows. 0 \<le> wcg_Consumption row"
proof (induction n arbitrary: t st r rows)
  case 0
  then show ?case by simp
next
  case (Suc n)
  then show ?case
    by (auto simp: bindG_Inr dest: wcg_meter_step_nonneg)
qed

lemma wcg_generate_meter_data_nonneg:
  "wcg_generate_meter_data cps c t n iv r = (Inr rows, r') \<Longrightarrow>
     \<forall>row \<in> set rows. 0 \<le> wcg_Consumption row"
  unfolding wcg_generate_meter_data_def
  by (auto simp: bindG_Inr dest: wcg_meter_loop_nonneg)

subsection \<open>Timestamps of the rows\<close>

lemma meter_step_TimeStamp:
  "meter_step mp oid ts prev r = (Inr (row, prev'), r') \<Longrightarrow> TimeStamp row = ts"
  unfolding meter_step_def Let_def
  by (auto simp: bindG_Inr split: if_splits)

lemma meter_loop_TimeStamp:
  "meter_loop mp oid tss prev r = (Inr (rows, final), r') \<Longrightarrow> map TimeStamp rows = tss"
proof (induction tss arbitrary: prev r rows final)
  case Nil
  then show ?case by simp
next
  case (Cons ts tss)
  then show ?case
    by (auto simp: bindG_Inr dest: meter_step_TimeStamp)
qed

lemma generate_meter_data_TimeStamp:
  "generate_meter_data ps s e oid v r = (Inr rows, r') \<Longrightarrow>
     map TimeStamp rows = date_range s e"
  unfolding generate_meter_data_def generate_meter_run_def
  by (auto simp: bindG_Inr dest: meter_loop_TimeStamp)

lemma wcg_meter_step_time:
  "wcg_meter_step cp c t st iv r = (Inr (row, t', st'), r') \<Longrightarrow>
     wcg_TimeStamp row = t \<and> t' = t + iv"
  unfolding wcg_meter_step_def Let_def add_minutes_def
  by (auto simp: bindG_Inr split: if_splits option.splits)

lemma wcg_meter_loop_time:
  "wcg_meter_loop cp c n t st iv r = (Inr rows, r') \<Longrightarrow>
     map wcg_TimeStamp rows = map (\<lambda>k. t + int k * iv) [0 ..< n]"
proof (induction n arbitrary: t st r rows)
  case 0
  then show ?case by simp
next
  case (Suc n)
  from Suc.prems obtain row t' st' r1 rest where
    step: "wcg_meter_step cp c t st iv r = (Inr (row, t', st'), r1)" and
    loop: "wcg_meter_loop cp c n t' st' iv r1 = (Inr rest, r')" and
    rows: "rows = row # rest"
    by (auto simp: bindG_Inr)
  from step have row: "wcg_TimeStamp row = t" and t': "t' = t + iv"
    by (auto dest: wcg_meter_step_time)
  have "map wcg_TimeStamp rest = map (\<lambda>k. t' + int k * iv) [0 ..< n]"
    using Suc.IH [OF loop] .
  also have "\<dots> = map (\<lambda>k. t + int k * iv) (map Suc [0 ..< n])"
    by (simp add: t' algebra_simps)
  finally have "map wcg_TimeStamp rest = map (\<lambda>k. t + int k * iv) [Suc 0 ..< Suc n]"
    by (simp only: map_Suc_upt)
  with row rows show ?case
    by (simp add: upt_conv_Cons del: upt_Suc)
qed

lemma wcg_generate_meter_data_time:
  "wcg_generate_meter_data cps c t n iv r = (Inr rows, r') \<Longrightarrow>
     map wcg_TimeStamp rows = map (\<lambda>k. t + int k * iv) [0 ..< nat n]"
  unfolding wcg_generate_meter_data_def
  by (auto simp: bindG_Inr dest: wcg_meter_loop_time)

subsection \<open>Errors of the samplers\<close>

lemma bindG_Inl: "m r = (Inl e, r1) \<Longrightarrow> bindG m f r = (Inl e, r1)"
  by (simp add: bindG_def)

lemma bindG_step: "m r = (Inr x, r1) \<Longrightarrow> bindG m f r = f x r1"
  by (simp add: bindG_def)

lemma getitem_Some: "getitem (Some x) r = (Inr x, r)"
  by (simp add: getitem_def)

lemma getitem_None: "getitem None r = (Inl KeyError, r)"
  by (simp add: getitem_def)

lemma choice_index_bad_sum:
  "atol < \<bar>sum_list p - 1\<bar> \<Longrightarrow> choice_index n p r = (Inl ValueError, r)"
  by (simp add: choice_index_def)

lemma choice_index_empty: "choice_index 0 p r = (Inl ValueError, r)"
  by (simp add: choice_index_def)

lemma mixture_value_bad_sum:
  "gmm_means p = Some ms \<Longrightarrow> gmm_weights p = Some ws \<Longrightarrow> atol < \<bar>sum_list ws - 1\<bar> \<Longrightarrow>
     mixture_value p r = (Inl ValueError, r)"
  by (simp add: mixture_value_def np_choice_int_def bindG_step [OF getitem_Some]
      bindG_Inl [OF choice_index_bad_sum])

lemma mixture_value_no_means: "gmm_means p = None \<Longrightarrow> mixture_value p r = (Inl KeyError, r)"
  by (simp add: mixture_value_def bindG_Inl [OF getitem_None])

lemma mixture_value_empty_means:
  "gmm_means p = Some [] \<Longrightarrow>
     mixture_value p r = (Inl (if gmm_weights p = None then KeyError else ValueError), r)"
  by (cases "gmm_weights p")
     (simp_all add: mixture_value_def np_choice_int_def bindG_step [OF getitem_Some]
        bindG_Inl [OF getitem_None] bindG_Inl [OF choice_index_empty])

lemma gcv_non_zero:
  "fst (should_be_zero p prev r) = Inr False \<Longrightarrow>
     generate_consumption_value p prev r = mixture_value p (snd (should_be_zero p prev r))"
  by (cases "should_be_zero p prev r") (simp add: generate_consumption_value_def bindG_def)

lemma gcv_zero:
  "fst (should_be_zero p prev r) = Inr True \<Longrightarrow>
     fst (generate_consumption_value p prev r) = Inr 0"
  by (cases "should_be_zero p prev r")
     (simp add: generate_consumption_value_def bindG_def returnG_def)


lemma wcg_value_bad_sum:
  "means g = Some ms \<Longrightarrow> weights g = Some ws \<Longrightarrow> atol < \<bar>sum_list ws - 1\<bar> \<Longrightarrow>
     fst (wcg_value_body (Some g) tp h d r) = Inl ValueError"
  by (simp add: wcg_value_body_def np_choice_int_def bindG_step [OF getitem_Some]
      bindG_Inl [OF choice_index_bad_sum])

lemma wcg_value_caught:
  "fst (wcg_value_body g tp h d r) = Inl e \<Longrightarrow>
     fst (wcg_generate_consumption_value g tp h d r) = Inr 0"
  by (cases "wcg_value_body g tp h d r") (simp add: wcg_generate_consumption_value_def)

lemma wcg_value_no_gmm: "fst (wcg_generate_consumption_value None tp h d r) = Inr 0"
  by (simp add: wcg_generate_consumption_value_def wcg_value_body_def returnG_def)

lemma wcg_value_no_means:
  "means g = None \<Longrightarrow> fst (wcg_value_body (Some g) tp h d r) = Inl KeyError"
  by (simp add: wcg_value_body_def bindG_Inl [OF getitem_None])

lemma wcg_value_empty_means:
  "means g = Some [] \<Longrightarrow> \<exists>e. fst (wcg_value_body (Some g) tp h d r) = Inl e"
  by (cases "weights g")
     (simp_all add: wcg_value_body_def np_choice_int_def bindG_step [OF getitem_Some]
        bindG_Inl [OF getitem_None] bindG_Inl [OF choice_index_empty])


lemma vary_slot_no_means: "gmm_means p = None \<Longrightarrow> fst (vary_slot v p r) = Inl KeyError"
  by (simp add: vary_slot_def bindG_Inl [OF getitem_None])

subsection \<open>The default transition table\<close>



subsection \<open>The variator\<close>

lemma vary_means_Inr:
  "vary_means v ms r = (Inr ms', r') \<Longrightarrow>
     ms' = map (\<lambda>i. ms ! i * (1 + v * gaussians r (gpos r + i))) [0 ..< length ms] \<and>
     r' = r\<lparr>gpos := gpos r + length ms\<rparr>"
proof (induction ms arbitrary: r ms' r')
  case Nil
  then show ?case by simp
next
  case (Cons m ms)
  let ?r1 = "r\<lparr>gpos := Suc (gpos r)\<rparr>"
  from Cons.prems obtain rest where
    rest: "vary_means v ms ?r1 = (Inr rest, r')" and
    ms': "ms' = m * (1 + v * gaussians r (gpos r)) # rest"
    by (auto simp: bindG_Inr)
  from Cons.IH [OF rest] have
    r: "rest = map (\<lambda>i. ms ! i * (1 + v * gaussians r (Suc (gpos r) + i))) [0 ..< length ms]" and
    r': "r' = r\<lparr>gpos := Suc (gpos r) + length ms\<rparr>"
    by simp_all
  have "map (\<lambda>i. (m # ms) ! i * (1 + v * gaussians r (gpos r + i))) [0 ..< length (m # ms)] =
      m * (1 + v * gaussians r (gpos r)) #
      map (\<lambda>i. (m # ms) ! i * (1 + v * gaussians r (gpos r + i))) (map Suc [0 ..< length ms])"
    by (simp add: upt_conv_Cons map_Suc_upt del: upt_Suc)
  also have "\<dots> = ms'"
    by (simp add: ms' r comp_def)
  finally show ?case using r' by simp
qed

lemma vary_slot_Inr:
  assumes "vary_slot v p r = (Inr p', r')"
  shows "gmm_weights p' = gmm_weights p \<and> gmm_covariances p' = gmm_covariances p \<and>
     percentiles p' = percentiles p \<and> transitions p' = transitions p \<and>
     zero_probability p' = zero_probability p \<and>
     (\<exists>ms c bs m. gmm_means p = Some ms \<and> common_values p = Some c \<and>
        basic_stats p = Some bs \<and> bs_mean bs = Some m \<and>
        gmm_means p' =
          Some (map (\<lambda>i. ms ! i * (1 + v * gaussians r (gpos r + i))) [0 ..< length ms]) \<and>
        common_values p' = Some (c * (1 + v * gaussians r (gpos r + length ms))) \<and>
        basic_stats p' =
          Some (bs\<lparr>bs_mean := Some (m * (1 + v * gaussians r (gpos r + length ms + 1)))\<rparr>))"
  using assms unfolding vary_slot_def
  by (auto simp: bindG_Inr dest!: vary_means_Inr)

lemma vary_slot_uniforms:
  "vary_slot v p r = (Inr p', r') \<Longrightarrow> uniforms r' = uniforms r"
  unfolding vary_slot_def
  by (auto simp: bindG_Inr dest!: vary_means_Inr)

lemma vary_day_uniforms:
  "vary_day v es acc r = (Inr res, r') \<Longrightarrow> uniforms r' = uniforms r"
proof (induction es arbitrary: acc r)
  case Nil
  then show ?case by simp
next
  case (Cons a es)
  obtain t e where a: "a = (t, e)" by (cases a)
  show ?case
  proof (cases "t = ''daily_sequence''")
    case True
    with Cons a show ?thesis by simp
  next
    case False
    with Cons.prems a obtain s' r1 where
      "vary_slot v (slot_of e) r = (Inr s', r1)"
      "vary_day v es (AList.update t (Slot s') acc) r1 = (Inr res, r')"
      by (auto simp: bindG_Inr)
    then show ?thesis
      using Cons.IH vary_slot_uniforms by fastforce
  qed
qed

lemma vary_patterns_uniforms:
  "vary_patterns v ps acc r = (Inr mp, r') \<Longrightarrow> uniforms r' = uniforms r"
proof (induction ps arbitrary: acc r)
  case Nil
  then show ?case by simp
next
  case (Cons a ps)
  obtain d es where a: "a = (d, es)" by (cases a)
  show ?case
  proof (cases "d = ''global_patterns''")
    case True
    with Cons a show ?thesis by simp
  next
    case False
    with Cons.prems a obtain day r1 where
      "vary_day v es [] r = (Inr day, r1)"
      "vary_patterns v ps (AList.update d day acc) r1 = (Inr mp, r')"
      by (auto simp: bindG_Inr)
    then show ?thesis
      using Cons.IH vary_day_uniforms by fastforce
  qed
qed

text \<open>Where the entries of the entity's copy come from.\<close>

lemma vary_day_origin:
  "vary_day v es acc r = (Inr res, r') \<Longrightarrow> map_of res t = Some e \<Longrightarrow>
     map_of acc t = Some e \<or>
     (\<exists>e0. (t, e0) \<in> set es \<and>
        (if t = ''daily_sequence'' then e = e0
         else \<exists>s' r1 r2. vary_slot v (slot_of e0) r1 = (Inr s', r2) \<and> e = Slot s'))"
proof (induction es arbitrary: acc r)
  case Nil
  then show ?case by simp
next
  case (Cons a es)
  obtain t1 e1 where a: "a = (t1, e1)" by (cases a)
  show ?case
  proof (cases "t1 = ''daily_sequence''")
    case True
    with Cons.prems a have "vary_day v es (AList.update t1 e1 acc) r = (Inr res, r')"
      by simp
    from Cons.IH [OF this Cons.prems(2)] True a show ?thesis
      by (auto simp: update_conv' split: if_splits)
  next
    case False
    with Cons.prems a obtain s' r1 where
      s': "vary_slot v (slot_of e1) r = (Inr s', r1)" and
      rest: "vary_day v es (AList.update t1 (Slot s') acc) r1 = (Inr res, r')"
      by (auto simp: bindG_Inr)
    from Cons.IH [OF rest Cons.prems(2)] False a s' show ?thesis
      by (auto simp: update_conv' split: if_splits)
  qed
qed

lemma vary_patterns_origin:
  "vary_patterns v ps acc r = (Inr mp, r') \<Longrightarrow> map_of mp d = Some dp \<Longrightarrow>
     map_of acc d = Some dp \<or>
     (\<exists>es r1 r2. (d, es) \<in> set ps \<and> d \<noteq> ''global_patterns'' \<and>
        vary_day v es [] r1 = (Inr dp, r2))"
proof (induction ps arbitrary: acc r)
  case Nil
  then show ?case by simp
next
  case (Cons a ps)
  obtain d1 es1 where a: "a = (d1, es1)" by (cases a)
  show ?case
  proof (cases "d1 = ''global_patterns''")
    case True
    with Cons.prems a have "vary_patterns v ps acc r = (Inr mp, r')"
      by simp
    from Cons.IH [OF this Cons.prems(2)] a show ?thesis
      by auto
  next
    case False
    with Cons.prems a obtain day r1 where
      day: "vary_day v es1 [] r = (Inr day, r1)" and
      rest: "vary_patterns v ps (AList.update d1 day acc) r1 = (Inr mp, r')"
      by (auto simp: bindG_Inr)
    from Cons.IH [OF rest Cons.prems(2)] False a day show ?thesis
      by (auto simp: update_conv' split: if_splits)
  qed
qed

lemma meter_patterns_origin:
  assumes "vary_patterns v ps [] r = (Inr mp, r')" "map_of mp d = Some dp"
    "map_of dp t = Some e" "t \<noteq> ''daily_sequence''"
  shows "\<exists>es e0 s' r1 r2. (d, es) \<in> set ps \<and> d \<noteq> ''global_patterns'' \<and> (t, e0) \<in> set es \<and>
     vary_slot v (slot_of e0) r1 = (Inr s', r2) \<and> e = Slot s'"
proof -
  from vary_patterns_origin [OF assms(1,2)] obtain es r1 r2 where
    es: "(d, es) \<in> set ps" "d \<noteq> ''global_patterns''" and
    day: "vary_day v es [] r1 = (Inr dp, r2)"
    by auto
  from vary_day_origin [OF day assms(3)] assms(4) obtain e0 s' r3 r4 where
    "(t, e0) \<in> set es" "vary_slot v (slot_of e0) r3 = (Inr s', r4)" "e = Slot s'"
    by auto
  with es show ?thesis
    by blast
qed

subsection \<open>The zero chain\<close>

lemma strftime_HM_not_sequence: "strftime_HM ts \<noteq> ''daily_sequence''"
proof
  assume "strftime_HM ts = ''daily_sequence''"
  then have "length (strftime_HM ts) = length ''daily_sequence''" by simp
  then show False by (simp add: strftime_HM_def two_digits_def)
qed

lemma gcv_locked:
  "transitions p = Some tr \<Longrightarrow> zero_to_non_zero tr = Some 0 \<Longrightarrow> 0 \<le> uniforms r (upos r) \<Longrightarrow>
     generate_consumption_value p 0 r = (Inr 0, r\<lparr>upos := Suc (upos r)\<rparr>)"
  by (simp add: generate_consumption_value_def should_be_zero_def gen_defs)

lemma hour_value_locked:
  assumes "transitions p = Some tr" "zero_to_non_zero tr = Some 0" "\<forall>i. 0 \<le> uniforms r i"
  shows "\<exists>r'. hour_value p pk zr 0 r = (Inr 0, r') \<and> uniforms r' = uniforms r"
  using assms
  by (simp add: hour_value_def gcv_locked bindG_def np_random_def returnG_def)

lemma add_variation_zero: "add_variation p 0 r = (Inr 0, r)"
  by (simp add: add_variation_def returnG_def)

lemma meter_step_locked:
  assumes locked: "\<forall>d dp t e. map_of mp d = Some dp \<longrightarrow> map_of dp t = Some e \<longrightarrow>
        t \<noteq> ''daily_sequence'' \<longrightarrow>
        (\<exists>tr. transitions (slot_of e) = Some tr \<and> zero_to_non_zero tr = Some 0)"
    and nonneg: "\<forall>i. 0 \<le> uniforms r i"
    and step: "meter_step mp oid ts 0 r = (Inr (row, prev'), r')"
  shows "Consumption row = 0 \<and> prev' = 0 \<and> uniforms r' = uniforms r"
proof (cases "has_pattern mp ts")
  case False
  with step show ?thesis
    by (auto simp: meter_step_def Let_def bindG_Inr)
next
  case True
  then obtain e where e: "map_of (day_patterns_at mp ts) (strftime_HM ts) = Some e"
    by (auto simp: has_pattern_def split: option.splits)
  then obtain dp where dp: "map_of mp (day_name ts) = Some dp" "day_patterns_at mp ts = dp"
    by (cases "map_of mp (day_name ts)") (auto simp: day_patterns_at_def)
  with locked e strftime_HM_not_sequence obtain tr where
    tr: "transitions (slot_of e) = Some tr" "zero_to_non_zero tr = Some 0"
    by blast
  from step True e obtain pk zr c r1 c' where
    hv: "hour_value (slot_of e) pk zr 0 r = (Inr c, r1)" and
    av: "add_variation (slot_of e) c r1 = (Inr c', r')" and
    row: "row = \<lparr>OBJECTID = oid, TimeStamp = ts, Consumption = py_round2 c'\<rparr>" "prev' = c'"
    by (auto simp: meter_step_def Let_def bindG_Inr)
  from hour_value_locked [OF tr nonneg, of pk zr] hv have "c = 0" "uniforms r1 = uniforms r"
    by auto
  with av row show ?thesis
    by (simp add: add_variation_zero)
qed

lemma meter_loop_locked:
  assumes locked: "\<forall>d dp t e. map_of mp d = Some dp \<longrightarrow> map_of dp t = Some e \<longrightarrow>
        t \<noteq> ''daily_sequence'' \<longrightarrow>
        (\<exists>tr. transitions (slot_of e) = Some tr \<and> zero_to_non_zero tr = Some 0)"
  shows "\<forall>i. 0 \<le> uniforms r i \<Longrightarrow> meter_loop mp oid tss 0 r = (Inr (rows, final), r') \<Longrightarrow>
     \<forall>row \<in> set rows. Consumption row = 0"
proof (induction tss arbitrary: r rows final)
  case Nil
  then show ?case by simp
next
  case (Cons ts tss)
  from Cons.prems(2) obtain row prev' r1 rest where
    step: "meter_step mp oid ts 0 r = (Inr (row, prev'), r1)" and
    loop: "meter_loop mp oid tss prev' r1 = (Inr (rest, final), r')" and
    rows: "rows = row # rest"
    by (auto simp: bindG_Inr)
  from meter_step_locked [OF locked Cons.prems(1) step] have
    z: "Consumption row = 0" "prev' = 0" "uniforms r1 = uniforms r"
    by simp_all
  with Cons.IH [of r1 rest final] Cons.prems(1) loop rows show ?case
    by simp
qed

lemma generate_meter_data_locked:
  assumes slots: "\<forall>(d, es) \<in> set ps. \<forall>(t, e) \<in> set es.
        d \<noteq> ''global_patterns'' \<and> t \<noteq> ''daily_sequence'' \<longrightarrow>
        (\<exists>tr. transitions (slot_of e) = Some tr \<and> zero_to_non_zero tr = Some 0)"
    and nonneg: "\<forall>i. 0 \<le> uniforms r i"
    and run: "generate_meter_data ps s e oid v r = (Inr rows, r')"
  shows "\<forall>row \<in> set rows. Consumption row = 0"
proof -
  from run obtain mp r1 final where
    vary: "vary_patterns v ps [] r = (Inr mp, r1)" and
    loop: "meter_loop mp oid (date_range s e) 0 r1 = (Inr (rows, final), r')"
    by (auto simp: generate_meter_data_def generate_meter_run_def bindG_Inr)
  have locked: "\<forall>d dp t e. map_of mp d = Some dp \<longrightarrow> map_of dp t = Some e \<longrightarrow>
        t \<noteq> ''daily_sequence'' \<longrightarrow>
        (\<exists>tr. transitions (slot_of e) = Some tr \<and> zero_to_non_zero tr = Some 0)"
  proof (intro allI impI)
    fix d dp t e
    assume "map_of mp d = Some dp" "map_of dp t = Some e" "t \<noteq> ''daily_sequence''"
    from meter_patterns_origin [OF vary this] obtain es e0 s' r2 r3 where
      o: "(d, es) \<in> set ps" "d \<noteq> ''global_patterns''" "(t, e0) \<in> set es"
        "vary_slot v (slot_of e0) r2 = (Inr s', r3)" "e = Slot s'"
      by blast
    from slots o(1-3) \<open>t \<noteq> ''daily_sequence''\<close> obtain tr where
      "transitions (slot_of e0) = Some tr" "zero_to_non_zero tr = Some 0"
      by fastforce
    with vary_slot_Inr [OF o(4)] o(5)
    show "\<exists>tr. transitions (slot_of e) = Some tr \<and> zero_to_non_zero tr = Some 0"
      by (simp add: slot_of_def)
  qed
  from vary_patterns_uniforms [OF vary] nonneg have "\<forall>i. 0 \<le> uniforms r1 i"
    by simp
  from meter_loop_locked [OF locked this loop] show ?thesis .
qed

lemma ex_zero_run:
  "fst (generate_meter_data ex_patterns_zero 0 15 7 (1 / 10) ex_rng) =
     Inr [\<lparr>OBJECTID = 7, TimeStamp = 0, Consumption = 0\<rparr>,
          \<lparr>OBJECTID = 7, TimeStamp = 15, Consumption = 0\<rparr>]"
  by (simp add: date_range_0_15 ex_patterns_zero_def ex_slot_stay_zero_def ex_slot_def
      ex_rng_def slot_run_defs gen_defs)

subsection \<open>The previous value and the order of the output\<close>








lemma sorted_sort_rows: "sorted (map (\<lambda>r. (TimeStamp r, OBJECTID r)) (sort_rows rows))"
  by (simp add: sort_rows_def)

lemma sort_rows_idem: "sort_rows (sort_rows rows) = sort_rows rows"
  unfolding sort_rows_def by (rule sort_key_id_if_sorted) simp

lemma upto_1_2: "[1 .. 2 :: int] = [1, 2]"
  by code_simp

lemma ex_cluster_output:
  "wcg_generate_synthetic_data ex_data 2 2 15 0 ex_rng =
     [\<lparr>wcg_TimeStamp = 0, wcg_Consumption = 10, Cluster = 0, MeterID = 1\<rparr>,
      \<lparr>wcg_TimeStamp = 15, wcg_Consumption = 10, Cluster = 0, MeterID = 1\<rparr>,
      \<lparr>wcg_TimeStamp = 0, wcg_Consumption = 10, Cluster = 0, MeterID = 2\<rparr>,
      \<lparr>wcg_TimeStamp = 15, wcg_Consumption = 10, Cluster = 0, MeterID = 2\<rparr>]"
  by (simp add: wcg_generate_synthetic_data_def upto_1_2 wcg_one_meter_def
      wcg_assign_cluster_def add_meter_id_def ex_data_def ex_cluster_def ex_rng_def
      cluster_run_defs gen_defs numeral_2_eq_2)

lemma ex_slot_output:
  "generate_synthetic_data ex_patterns 0 15 2 7 (1 / 10) (\<lambda>i. ex_rng) [1, 0] =
     Inr [\<lparr>OBJECTID = 7, TimeStamp = 0, Consumption = 10\<rparr>,
          \<lparr>OBJECTID = 8, TimeStamp = 0, Consumption = 10\<rparr>,
          \<lparr>OBJECTID = 7, TimeStamp = 15, Consumption = 0\<rparr>,
          \<lparr>OBJECTID = 8, TimeStamp = 15, Consumption = 0\<rparr>]"
  by (simp add: generate_synthetic_data_def sort_rows_def date_range_0_15 ex_patterns_def ex_slot_def ex_sequence_def ex_rng_def
      slot_run_defs gen_defs)

lemma sorted_steps: "0 \<le> iv \<Longrightarrow> sorted (map (\<lambda>k. t + int k * iv) [0 ..< n])"
  by (auto simp: sorted_map sorted_wrt_iff_nth_less mult_right_mono)

lemma wcg_one_meter_rows:
  assumes "wcg_one_meter pd meter_id start np iv r = (Inr rows, r')" "0 \<le> iv"
  shows "sorted (map (\<lambda>x. (MeterID x, wcg_TimeStamp x)) rows) \<and>
     (\<forall>x \<in> set rows. MeterID x = meter_id)"
proof -
  from assms(1) obtain pats c r1 data where
    data: "wcg_generate_meter_data pats c start np iv r1 = (Inr data, r')" and
    rows: "rows = map (add_meter_id meter_id) data"
    by (auto simp: wcg_one_meter_def bindG_Inr)
  have ts: "map wcg_TimeStamp rows = map (\<lambda>k. start + int k * iv) [0 ..< nat np]"
    using wcg_generate_meter_data_time [OF data] rows
    by (simp add: add_meter_id_def comp_def)
  have ids: "\<forall>x \<in> set rows. MeterID x = meter_id"
    using rows by (auto simp: add_meter_id_def)
  from ts sorted_steps [OF assms(2)] have "sorted (map wcg_TimeStamp rows)"
    by simp
  then have "sorted_wrt (\<lambda>x y. wcg_TimeStamp x \<le> wcg_TimeStamp y) rows"
    by (simp add: sorted_map)
  then have "sorted_wrt (\<lambda>x y. (MeterID x, wcg_TimeStamp x) \<le> (MeterID y, wcg_TimeStamp y)) rows"
    using ids by (auto simp: sorted_wrt_iff_nth_less)
  with ids show ?thesis
    by (simp add: sorted_map)
qed

lemma wcg_meters_loop_sorted:
  assumes "0 \<le> iv"
  shows "sorted_wrt (<) ids \<Longrightarrow> sorted (map (\<lambda>x. (MeterID x, wcg_TimeStamp x)) all_data) \<Longrightarrow>
     \<forall>x \<in> set all_data. \<forall>i \<in> set ids. MeterID x < i \<Longrightarrow>
     sorted (map (\<lambda>x. (MeterID x, wcg_TimeStamp x))
       (fst (wcg_meters_loop pd ids start np iv all_data r)))"
proof (induction ids arbitrary: all_data r)
  case Nil
  then show ?case by simp
next
  case (Cons meter_id rest)
  obtain res r1 where one: "wcg_one_meter pd meter_id start np iv r = (res, r1)"
    by (cases "wcg_one_meter pd meter_id start np iv r")
  show ?case
  proof (cases res)
    case (Inl err)
    with one Cons show ?thesis by simp
  next
    case (Inr rows)
    with one wcg_one_meter_rows [OF _ assms] have
      rows: "sorted (map (\<lambda>x. (MeterID x, wcg_TimeStamp x)) rows)"
        "\<forall>x \<in> set rows. MeterID x = meter_id"
      by auto
    have "sorted (map (\<lambda>x. (MeterID x, wcg_TimeStamp x)) (all_data @ rows))"
      using Cons.prems(2,3) rows by (auto simp: sorted_append)
    moreover have "\<forall>x \<in> set (all_data @ rows). \<forall>i \<in> set rest. MeterID x < i"
      using Cons.prems(1,3) rows(2) by auto
    moreover have "sorted_wrt (<) rest"
      using Cons.prems(1) by simp
    ultimately show ?thesis
      using Cons.IH [of "all_data @ rows" r1] one Inr by simp
  qed
qed

lemma wcg_output_sorted:
  "0 \<le> iv \<Longrightarrow> sorted (map (\<lambda>x. (MeterID x, wcg_TimeStamp x))
     (wcg_generate_synthetic_data pd nm np iv start r))"
  unfolding wcg_generate_synthetic_data_def
  by (rule wcg_meters_loop_sorted) simp_all

lemma mset_concat_map:
  "mset (concat (map G xs)) = sum_mset (image_mset (\<lambda>x. mset (G x)) (mset xs))"
  by (induction xs) simp_all

lemma mset_concat_concat_map:
  "mset (concat (concat (map G xs))) =
     sum_mset (image_mset (\<lambda>x. mset (concat (G x))) (mset xs))"
  by (induction xs) simp_all

lemma sorted_keys_unique:
  assumes "mset xs = mset ys" "sorted (map f xs)" "sorted (map f ys)"
  shows "map f xs = map f ys"
proof -
  from assms(1) have "mset (map f ys) = mset (map f xs)" by simp
  from properties_for_sort [OF this assms(3)] have "sort (map f xs) = map f ys" .
  with sorted_sort_id [OF assms(2)] show ?thesis by simp
qed

lemma generate_synthetic_data_order:
  assumes "mset completed' = mset completed"
    and "generate_synthetic_data ps s e nm base v draws completed = Inr rows"
    and "generate_synthetic_data ps s e nm base v draws completed' = Inr rows'"
  shows "mset rows' = mset rows \<and>
     map (\<lambda>r. (TimeStamp r, OBJECTID r)) rows' = map (\<lambda>r. (TimeStamp r, OBJECTID r)) rows"
proof -
  let ?G = "\<lambda>i. case fst (generate_meter_data ps s e (base + int i) v (draws i)) of
      Inl err \<Rightarrow> [] | Inr meter_data \<Rightarrow> [meter_data]"
  let ?df = "\<lambda>c. concat (concat (map ?G (filter (\<lambda>i. i < nat nm) c)))"
  from assms(2) have rows: "rows = sort_rows (?df completed)"
    by (simp add: generate_synthetic_data_def Let_def split: if_splits)
  from assms(3) have rows': "rows' = sort_rows (?df completed')"
    by (simp add: generate_synthetic_data_def Let_def split: if_splits)
  have "mset (?df completed') = mset (?df completed)"
    unfolding mset_concat_concat_map using assms(1) by simp
  then have m: "mset rows' = mset rows"
    by (simp add: rows rows' sort_rows_def)
  have "sorted (map (\<lambda>r. (TimeStamp r, OBJECTID r)) rows')"
    "sorted (map (\<lambda>r. (TimeStamp r, OBJECTID r)) rows)"
    by (simp_all add: rows rows' sort_rows_def)
  from sorted_keys_unique [OF m this] m show ?thesis
    by simp
qed

lemma ex_slot_output_other:
  "generate_synthetic_data ex_patterns 0 15 2 7 (1 / 10) (\<lambda>i. ex_rng) [0, 1] =
     Inr [\<lparr>OBJECTID = 7, TimeStamp = 0, Consumption = 10\<rparr>,
          \<lparr>OBJECTID = 8, TimeStamp = 0, Consumption = 10\<rparr>,
          \<lparr>OBJECTID = 7, TimeStamp = 15, Consumption = 0\<rparr>,
          \<lparr>OBJECTID = 8, TimeStamp = 15, Consumption = 0\<rparr>]"
  by (simp add: generate_synthetic_data_def sort_rows_def date_range_0_15 ex_patterns_def
      ex_slot_def ex_sequence_def ex_rng_def slot_run_defs gen_defs)

subsection \<open>The component draw within the tolerance\<close>

lemma length_cumsum [simp]: "length (cumsum a p) = length p"
  by (induction p arbitrary: a) simp_all

lemma cumsum_eq_Nil [simp]: "cumsum a p = [] \<longleftrightarrow> p = []"
  by (cases p) simp_all




subsection \<open>The samplers on valid and invalid weights\<close>










section \<open>The claims\<close>

text \<open>
  C1. Every reading generated for an entity has a consumption value of at least 0, in the
  slot-grouped generator and in the cluster generator, whatever the pattern file and the
  random draws.
\<close>

theorem consumption_nonneg:
  "(fst (generate_meter_data ps s e oid v r) = Inr rows \<longrightarrow>
      (\<forall>row \<in> set rows. 0 \<le> Consumption row)) \<and>
   (fst (wcg_generate_meter_data cps c t n iv q) = Inr wrows \<longrightarrow>
      (\<forall>row \<in> set wrows. 0 \<le> wcg_Consumption row))"
  by (auto simp only: fst_eq_Inr
      dest!: generate_meter_data_nonneg wcg_generate_meter_data_nonneg)

theorem consumption_nonneg_witness:
  "fst (generate_meter_data ex_patterns 0 15 7 (1 / 10) ex_rng) =
     Inr [\<lparr>OBJECTID = 7, TimeStamp = 0, Consumption = 10\<rparr>,
          \<lparr>OBJECTID = 7, TimeStamp = 15, Consumption = 0\<rparr>] \<and>
   list_all (\<lambda>row. 0 \<le> Consumption row)
     [\<lparr>OBJECTID = 7, TimeStamp = 0, Consumption = 10\<rparr>,
      \<lparr>OBJECTID = 7, TimeStamp = 15, Consumption = (0::real)\<rparr>] \<and>
   fst (wcg_generate_meter_data [(''0'', ex_cluster)] ''0'' 0 2 15 ex_rng) =
     Inr [\<lparr>wcg_TimeStamp = 0, wcg_Consumption = 10, Cluster = 0\<rparr>,
          \<lparr>wcg_TimeStamp = 15, wcg_Consumption = 10, Cluster = 0\<rparr>] \<and>
   list_all (\<lambda>row. 0 \<le> wcg_Consumption row)
     [\<lparr>wcg_TimeStamp = 0, wcg_Consumption = 10, Cluster = 0\<rparr>,
      \<lparr>wcg_TimeStamp = 15, wcg_Consumption = (10::real), Cluster = 0\<rparr>]"
  using consumption_nonneg [where ps = ex_patterns and s = 0 and e = 15 and oid = 7
      and v = "1 / 10" and r = ex_rng
      and rows = "[\<lparr>OBJECTID = 7, TimeStamp = 0, Consumption = 10\<rparr>,
                   \<lparr>OBJECTID = 7, TimeStamp = 15, Consumption = 0\<rparr>]"
      and cps = "[(''0'', ex_cluster)]" and c = "''0''" and t = 0 and n = 2 and iv = 15
      and q = ex_rng
      and wrows = "[\<lparr>wcg_TimeStamp = 0, wcg_Consumption = 10, Cluster = 0\<rparr>,
                    \<lparr>wcg_TimeStamp = 15, wcg_Consumption = 10, Cluster = 0\<rparr>]"]
    ex_meter_data ex_cluster_meter_data
  by simp

text \<open>
  C2. An entity that is generated has exactly one reading per requested period: in the
  slot-grouped generator one per timestamp of the 15-minute range from start to end, in
  the cluster generator \<open>num_periods\<close> readings, \<open>time_interval\<close> minutes apart.
\<close>

theorem reading_count:
  "(fst (generate_meter_data ps s e oid v r) = Inr rows \<longrightarrow>
      map TimeStamp rows = date_range s e \<and> length rows = length (date_range s e) \<and>
      int (length rows) = (if e < s then 0 else (e - s) div 15 + 1)) \<and>
   (0 \<le> n \<and> fst (wcg_generate_meter_data cps c t n iv q) = Inr wrows \<longrightarrow>
      int (length wrows) = n \<and>
      map wcg_TimeStamp wrows = map (\<lambda>k. t + int k * iv) [0 ..< nat n])"
proof (intro conjI impI)
  assume "fst (generate_meter_data ps s e oid v r) = Inr rows"
  then have ts: "map TimeStamp rows = date_range s e"
    by (auto simp only: fst_eq_Inr dest: generate_meter_data_TimeStamp)
  then show "map TimeStamp rows = date_range s e" .
  from ts have len: "length rows = length (date_range s e)"
    by (metis length_map)
  then show "length rows = length (date_range s e)" .
  from len show "int (length rows) = (if e < s then 0 else (e - s) div 15 + 1)"
    by (simp add: date_range_def)
next
  assume h: "0 \<le> n \<and> fst (wcg_generate_meter_data cps c t n iv q) = Inr wrows"
  then have ts: "map wcg_TimeStamp wrows = map (\<lambda>k. t + int k * iv) [0 ..< nat n]"
    by (auto simp only: fst_eq_Inr dest: wcg_generate_meter_data_time)
  then show "map wcg_TimeStamp wrows = map (\<lambda>k. t + int k * iv) [0 ..< nat n]" .
  from ts have "length wrows = nat n"
    by (metis length_map length_upt minus_nat.diff_0)
  with h show "int (length wrows) = n" by simp
qed

theorem reading_count_witness:
  "fst (generate_meter_data ex_patterns 0 15 7 (1 / 10) ex_rng) =
     Inr [\<lparr>OBJECTID = 7, TimeStamp = 0, Consumption = 10\<rparr>,
          \<lparr>OBJECTID = 7, TimeStamp = 15, Consumption = 0\<rparr>] \<and>
   date_range 0 15 = [0, 15] \<and>
   (0::int) \<le> 2 \<and>
   fst (wcg_generate_meter_data [(''0'', ex_cluster)] ''0'' 0 2 15 ex_rng) =
     Inr [\<lparr>wcg_TimeStamp = 0, wcg_Consumption = 10, Cluster = 0\<rparr>,
          \<lparr>wcg_TimeStamp = 15, wcg_Consumption = 10, Cluster = 0\<rparr>] \<and>
   int (length [\<lparr>wcg_TimeStamp = 0, wcg_Consumption = (10::real), Cluster = 0\<rparr>,
          \<lparr>wcg_TimeStamp = 15, wcg_Consumption = 10, Cluster = 0\<rparr>]) = 2"
  using reading_count [where ps = ex_patterns and s = 0 and e = 15 and oid = 7
      and v = "1 / 10" and r = ex_rng
      and rows = "[\<lparr>OBJECTID = 7, TimeStamp = 0, Consumption = 10\<rparr>,
                   \<lparr>OBJECTID = 7, TimeStamp = 15, Consumption = 0\<rparr>]"
      and cps = "[(''0'', ex_cluster)]" and c = "''0''" and t = 0 and n = 2 and iv = 15
      and q = ex_rng
      and wrows = "[\<lparr>wcg_TimeStamp = 0, wcg_Consumption = 10, Cluster = 0\<rparr>,
                    \<lparr>wcg_TimeStamp = 15, wcg_Consumption = 10, Cluster = 0\<rparr>]"]
    ex_meter_data ex_cluster_meter_data
  by (simp add: date_range_0_15)







text \<open>
  C8, as stated, fails: with an empty mixture the slot-grouped sampler does not return 0;
  the component draw raises \<open>ValueError\<close> and the entity is lost.
\<close>

theorem empty_mixture_raises:
  "gmm_means ex_slot_empty = Some [] \<and>
   fst (generate_consumption_value ex_slot_empty 0 ex_rng) = Inl ValueError \<and>
   fst (generate_meter_data (ex_day ex_slot_empty) 0 15 7 (1 / 10) ex_rng) = Inl ValueError"
  by (simp add: ex_slot_empty_def ex_day_def ex_slot_def ex_sequence_def ex_rng_def
      date_range_0_15 slot_run_defs gen_defs)

text \<open>
  C8, amended. The cluster sampler returns 0 when the cluster has no mixture, or its
  mixture has no or an empty list of means. The slot-grouped sampler returns 0 only when
  the occupancy step decides for zero; when it decides for a non-zero value, an absent
  mixture raises \<open>KeyError\<close> and an empty one \<open>ValueError\<close> (\<open>KeyError\<close> if the
  weights are absent too), and the variator raises \<open>KeyError\<close> on an absent mixture.
\<close>

theorem missing_mixture:
  "((g = None \<or> (\<exists>m. g = Some m \<and> (means m = None \<or> means m = Some []))) \<longrightarrow>
      fst (wcg_generate_consumption_value g tp h d q) = Inr 0) \<and>
   (fst (should_be_zero p prev r) = Inr True \<longrightarrow>
      fst (generate_consumption_value p prev r) = Inr 0) \<and>
   (fst (should_be_zero p prev r) = Inr False \<and> gmm_means p = None \<longrightarrow>
      fst (generate_consumption_value p prev r) = Inl KeyError) \<and>
   (fst (should_be_zero p prev r) = Inr False \<and> gmm_means p = Some [] \<longrightarrow>
      fst (generate_consumption_value p prev r) =
        Inl (if gmm_weights p = None then KeyError else ValueError)) \<and>
   (gmm_means p = None \<longrightarrow> fst (vary_slot v p r) = Inl KeyError)"
proof (intro conjI impI)
  assume "g = None \<or> (\<exists>m. g = Some m \<and> (means m = None \<or> means m = Some []))"
  then consider "g = None" | m where "g = Some m" "means m = None"
    | m where "g = Some m" "means m = Some []"
    by blast
  then show "fst (wcg_generate_consumption_value g tp h d q) = Inr 0"
  proof cases
    case 1
    then show ?thesis by (simp add: wcg_value_no_gmm)
  next
    case 2
    then show ?thesis by (auto dest: wcg_value_no_means intro: wcg_value_caught)
  next
    case 3
    from wcg_value_empty_means [OF 3(2)] obtain e where
      "fst (wcg_value_body (Some m) tp h d q) = Inl e" by blast
    with 3(1) show ?thesis by (auto intro: wcg_value_caught)
  qed
qed (simp_all add: gcv_zero gcv_non_zero mixture_value_no_means mixture_value_empty_means
    vary_slot_no_means)

theorem missing_mixture_witness:
  "means ex_gmm_empty = Some [] \<and>
   fst (wcg_generate_consumption_value (Some ex_gmm_empty) empty_temporal 0 3 ex_rng) = Inr 0 \<and>
   fst (should_be_zero (ex_slot_stay_zero\<lparr>gmm_means := Some []\<rparr>) 0 ex_rng) = Inr True \<and>
   fst (generate_consumption_value (ex_slot_stay_zero\<lparr>gmm_means := Some []\<rparr>) 0 ex_rng) = Inr 0 \<and>
   fst (should_be_zero ex_slot_empty 0 ex_rng) = Inr False \<and>
   gmm_means (ex_slot_empty\<lparr>gmm_means := None\<rparr>) = None \<and>
   fst (generate_consumption_value (ex_slot_empty\<lparr>gmm_means := None\<rparr>) 0 ex_rng) = Inl KeyError \<and>
   gmm_means ex_slot_empty = Some [] \<and>
   fst (generate_consumption_value ex_slot_empty 0 ex_rng) = Inl ValueError \<and>
   fst (vary_slot (1 / 10) (ex_slot_empty\<lparr>gmm_means := None\<rparr>) ex_rng) = Inl KeyError"
proof -
  have h: "means ex_gmm_empty = Some [] \<and>
      fst (should_be_zero ex_slot_empty 0 ex_rng) = Inr False \<and>
      fst (should_be_zero (ex_slot_empty\<lparr>gmm_means := None\<rparr>) 0 ex_rng) = Inr False \<and>
      gmm_means ex_slot_empty = Some [] \<and> gmm_weights ex_slot_empty = Some []"
    by (simp add: ex_gmm_empty_def ex_slot_empty_def ex_slot_def ex_rng_def should_be_zero_def
        gen_defs)
  have k: "fst (should_be_zero (ex_slot_stay_zero\<lparr>gmm_means := Some []\<rparr>) 0 ex_rng) = Inr True"
    by (simp add: ex_slot_stay_zero_def ex_slot_def ex_rng_def should_be_zero_def gen_defs)
  show ?thesis
    using missing_mixture [where g = "Some ex_gmm_empty" and tp = empty_temporal and h = 0
        and d = 3 and q = ex_rng and p = ex_slot_empty and prev = 0 and r = ex_rng
        and v = "1 / 10"]
      missing_mixture [where g = None and p = "ex_slot_stay_zero\<lparr>gmm_means := Some []\<rparr>"
        and prev = 0 and r = ex_rng]
      missing_mixture [where g = None and p = "ex_slot_empty\<lparr>gmm_means := None\<rparr>"
        and prev = 0 and r = ex_rng and v = "1 / 10"] h k
    by simp
qed

text \<open>
  C7, as stated, fails: the variator also multiplies the \<open>mean\<close> of \<open>basic_stats\<close>. With
  a variation factor of 1/10 and normal draws of 1, the mean 10 of the shared slot becomes
  11 in the copy.
\<close>

theorem variator_perturbs_stats_mean:
  "basic_stats ex_slot =
     Some \<lparr>bs_mean = Some 10, bs_std = Some 1, bs_min = Some 0, bs_max = Some 20\<rparr> \<and>
   fst (vary_slot (1 / 10) ex_slot ex_rng_one) =
     Inr (ex_slot\<lparr>gmm_means := Some [11], common_values := Some (11 / 2),
       basic_stats :=
         Some \<lparr>bs_mean = Some 11, bs_std = Some 1, bs_min = Some 0, bs_max = Some 20\<rparr>\<rparr>)"
  by (simp add: ex_slot_def ex_rng_one_def vary_slot_def gen_defs)

text \<open>
  C7, amended. The copy of a slot multiplies each mixture mean, the common value and the
  \<open>mean\<close> of \<open>basic_stats\<close> by \<open>1 + variation_factor * z\<close>, each with a normal draw
  \<open>z\<close> of its own, taken in this order; the weights, the variances, the percentiles, the
  transitions, the zero probability and \<open>std\<close>, \<open>min\<close>, \<open>max\<close> of \<open>basic_stats\<close>
  are copied unchanged. Every slot of an entity's pattern copy is such a copy of the slot
  of the shared pattern at the same day and time.
\<close>

theorem variator_frame:
  "(fst (vary_slot v p r) = Inr p' \<longrightarrow>
      gmm_weights p' = gmm_weights p \<and> gmm_covariances p' = gmm_covariances p \<and>
      percentiles p' = percentiles p \<and> transitions p' = transitions p \<and>
      zero_probability p' = zero_probability p \<and>
      (\<exists>ms c bs m. gmm_means p = Some ms \<and> common_values p = Some c \<and>
         basic_stats p = Some bs \<and> bs_mean bs = Some m \<and>
         gmm_means p' =
           Some (map (\<lambda>i. ms ! i * (1 + v * gaussians r (gpos r + i))) [0 ..< length ms]) \<and>
         common_values p' = Some (c * (1 + v * gaussians r (gpos r + length ms))) \<and>
         basic_stats p' =
           Some (bs\<lparr>bs_mean := Some (m * (1 + v * gaussians r (gpos r + length ms + 1)))\<rparr>))) \<and>
   (fst (vary_patterns v ps [] q) = Inr mp \<and> map_of mp d = Some dp \<and> map_of dp t = Some e \<and>
    t \<noteq> ''daily_sequence'' \<longrightarrow>
      (\<exists>es e0 q1. (d, es) \<in> set ps \<and> (t, e0) \<in> set es \<and>
         fst (vary_slot v (slot_of e0) q1) = Inr (slot_of e)))"
proof (rule conjI; rule impI)
  assume "fst (vary_slot v p r) = Inr p'"
  then obtain r' where "vary_slot v p r = (Inr p', r')"
    by (auto simp only: fst_eq_Inr)
  from vary_slot_Inr [OF this]
  show "gmm_weights p' = gmm_weights p \<and> gmm_covariances p' = gmm_covariances p \<and>
      percentiles p' = percentiles p \<and> transitions p' = transitions p \<and>
      zero_probability p' = zero_probability p \<and>
      (\<exists>ms c bs m. gmm_means p = Some ms \<and> common_values p = Some c \<and>
         basic_stats p = Some bs \<and> bs_mean bs = Some m \<and>
         gmm_means p' =
           Some (map (\<lambda>i. ms ! i * (1 + v * gaussians r (gpos r + i))) [0 ..< length ms]) \<and>
         common_values p' = Some (c * (1 + v * gaussians r (gpos r + length ms))) \<and>
         basic_stats p' =
           Some (bs\<lparr>bs_mean := Some (m * (1 + v * gaussians r (gpos r + length ms + 1)))\<rparr>))" .
next
  assume h: "fst (vary_patterns v ps [] q) = Inr mp \<and> map_of mp d = Some dp \<and>
    map_of dp t = Some e \<and> t \<noteq> ''daily_sequence''"
  then obtain q' where "vary_patterns v ps [] q = (Inr mp, q')"
    by (auto simp only: fst_eq_Inr)
  from meter_patterns_origin [OF this] h obtain es e0 s' q1 q2 where
    "(d, es) \<in> set ps" "(t, e0) \<in> set es" "vary_slot v (slot_of e0) q1 = (Inr s', q2)"
    "e = Slot s'"
    by blast
  then have "(d, es) \<in> set ps \<and> (t, e0) \<in> set es \<and>
      fst (vary_slot v (slot_of e0) q1) = Inr (slot_of e)"
    by (simp add: slot_of_def)
  then show "\<exists>es e0 q1. (d, es) \<in> set ps \<and> (t, e0) \<in> set es \<and>
      fst (vary_slot v (slot_of e0) q1) = Inr (slot_of e)"
    by blast
qed

theorem variator_frame_witness:
  "fst (vary_slot (1 / 10) ex_slot ex_rng_one) =
     Inr (ex_slot\<lparr>gmm_means := Some [11], common_values := Some (11 / 2),
       basic_stats :=
         Some \<lparr>bs_mean = Some 11, bs_std = Some 1, bs_min = Some 0, bs_max = Some 20\<rparr>\<rparr>) \<and>
   gmm_weights ex_slot = Some [1] \<and> gmm_covariances ex_slot = Some [0] \<and>
   fst (vary_patterns (1 / 10) ex_patterns [] ex_rng) = Inr ex_patterns \<and>
   map_of ex_patterns ''Thursday'' =
     Some [(''00:00'', Slot ex_slot), (''daily_sequence'', Sequence ex_sequence)] \<and>
   map_of [(''00:00'', Slot ex_slot), (''daily_sequence'', Sequence ex_sequence)] ''00:00'' =
     Some (Slot ex_slot) \<and>
   ''00:00'' \<noteq> ''daily_sequence'' \<and>
   (\<exists>es e0 q1. (''Thursday'', es) \<in> set ex_patterns \<and> (''00:00'', e0) \<in> set es \<and>
      fst (vary_slot (1 / 10) (slot_of e0) q1) = Inr (slot_of (Slot ex_slot)))"
proof -
  have h: "fst (vary_slot (1 / 10) ex_slot ex_rng_one) =
     Inr (ex_slot\<lparr>gmm_means := Some [11], common_values := Some (11 / 2),
       basic_stats :=
         Some \<lparr>bs_mean = Some 11, bs_std = Some 1, bs_min = Some 0, bs_max = Some 20\<rparr>\<rparr>)"
    by (simp add: ex_slot_def ex_rng_one_def vary_slot_def gen_defs)
  have k: "fst (vary_patterns (1 / 10) ex_patterns [] ex_rng) = Inr ex_patterns \<and>
     map_of ex_patterns ''Thursday'' =
       Some [(''00:00'', Slot ex_slot), (''daily_sequence'', Sequence ex_sequence)] \<and>
     map_of [(''00:00'', Slot ex_slot), (''daily_sequence'', Sequence ex_sequence)] ''00:00'' =
       Some (Slot ex_slot)"
    by (simp add: ex_patterns_def ex_slot_def ex_rng_def vary_slot_def slot_of_def gen_defs)
  show ?thesis
    using variator_frame [where v = "1 / 10" and p = ex_slot and r = ex_rng_one
        and p' = "ex_slot\<lparr>gmm_means := Some [11], common_values := Some (11 / 2),
          basic_stats :=
            Some \<lparr>bs_mean = Some 11, bs_std = Some 1, bs_min = Some 0, bs_max = Some 20\<rparr>\<rparr>"
        and ps = ex_patterns and q = ex_rng and mp = ex_patterns and d = "''Thursday''"
        and dp = "[(''00:00'', Slot ex_slot), (''daily_sequence'', Sequence ex_sequence)]"
        and t = "''00:00''" and e = "Slot ex_slot"] h k
    by (simp add: ex_slot_def)
qed

text \<open>
  C9. When every slot of the pattern has transitions with \<open>zero_to_non_zero = 0.0\<close>, an
  entity, which starts in the zero state, gets only readings equal to 0, for every range
  of timestamps and every sequence of draws (uniform draws are not negative), peak hours
  and zero periods included.
\<close>

theorem zero_transition_all_zero:
  assumes "\<forall>(d, es) \<in> set ps. \<forall>(t, e) \<in> set es.
        d \<noteq> ''global_patterns'' \<and> t \<noteq> ''daily_sequence'' \<longrightarrow>
        (\<exists>tr. transitions (slot_of e) = Some tr \<and> zero_to_non_zero tr = Some 0)"
    and "\<forall>i. 0 \<le> uniforms r i"
    and "fst (generate_meter_data ps s e oid v r) = Inr rows"
  shows "\<forall>row \<in> set rows. Consumption row = 0"
proof -
  from assms(3) obtain r' where "generate_meter_data ps s e oid v r = (Inr rows, r')"
    by (auto simp only: fst_eq_Inr)
  from generate_meter_data_locked [OF assms(1,2) this] show ?thesis .
qed

theorem zero_transition_all_zero_witness:
  "fst (generate_meter_data ex_patterns_zero 0 15 7 (1 / 10) ex_rng) =
     Inr [\<lparr>OBJECTID = 7, TimeStamp = 0, Consumption = 0\<rparr>,
          \<lparr>OBJECTID = 7, TimeStamp = 15, Consumption = 0\<rparr>] \<and>
   list_all (\<lambda>row. Consumption row = 0)
     [\<lparr>OBJECTID = 7, TimeStamp = 0, Consumption = (0::real)\<rparr>,
      \<lparr>OBJECTID = 7, TimeStamp = 15, Consumption = 0\<rparr>]"
proof -
  have slots: "\<forall>(d, es) \<in> set ex_patterns_zero. \<forall>(t, e) \<in> set es.
        d \<noteq> ''global_patterns'' \<and> t \<noteq> ''daily_sequence'' \<longrightarrow>
        (\<exists>tr. transitions (slot_of e) = Some tr \<and> zero_to_non_zero tr = Some 0)"
    by (simp add: ex_patterns_zero_def ex_slot_stay_zero_def slot_of_def)
  have draws: "\<forall>i. 0 \<le> uniforms ex_rng i"
    by (simp add: ex_rng_def)
  from zero_transition_all_zero [OF slots draws ex_zero_run] ex_zero_run show ?thesis
    by simp
qed




text \<open>
  C4, as stated, fails in the cluster generator, which never sorts: two meters with two
  periods each are written meter by meter, so the rows are not in the order of
  (timestamp, entity).
\<close>

theorem cluster_output_unsorted:
  "wcg_generate_synthetic_data ex_data 2 2 15 0 ex_rng =
     [\<lparr>wcg_TimeStamp = 0, wcg_Consumption = 10, Cluster = 0, MeterID = 1\<rparr>,
      \<lparr>wcg_TimeStamp = 15, wcg_Consumption = 10, Cluster = 0, MeterID = 1\<rparr>,
      \<lparr>wcg_TimeStamp = 0, wcg_Consumption = 10, Cluster = 0, MeterID = 2\<rparr>,
      \<lparr>wcg_TimeStamp = 15, wcg_Consumption = 10, Cluster = 0, MeterID = 2\<rparr>] \<and>
   \<not> sorted (map (\<lambda>x. (wcg_TimeStamp x, MeterID x))
     (wcg_generate_synthetic_data ex_data 2 2 15 0 ex_rng))"
  using ex_cluster_output by simp

text \<open>
  C4, amended. In the slot-grouped generator the merged dataset handed to the writer is
  sorted by (timestamp, entity) and so unchanged by sorting again, for every set of
  entities generated and every order of completion; two orders of completion give the
  same rows and the same sequence of keys. The cluster generator does not sort: it writes
  the entities in ascending order, each with its rows in time order, which for a
  non-negative interval is the order of (entity, timestamp).
\<close>

theorem merged_order:
  "(generate_synthetic_data ps s e nm base v draws completed = Inr rows \<longrightarrow>
      sorted (map (\<lambda>r. (TimeStamp r, OBJECTID r)) rows) \<and> sort_rows rows = rows) \<and>
   (mset completed' = mset completed \<and>
    generate_synthetic_data ps s e nm base v draws completed = Inr rows \<and>
    generate_synthetic_data ps s e nm base v draws completed' = Inr rows' \<longrightarrow>
      mset rows' = mset rows \<and>
      map (\<lambda>r. (TimeStamp r, OBJECTID r)) rows' = map (\<lambda>r. (TimeStamp r, OBJECTID r)) rows) \<and>
   (0 \<le> iv \<longrightarrow>
      sorted (map (\<lambda>x. (MeterID x, wcg_TimeStamp x))
        (wcg_generate_synthetic_data pd nm' np iv start q)))"
proof (intro conjI impI)
  assume "generate_synthetic_data ps s e nm base v draws completed = Inr rows"
  then obtain df where rows: "rows = sort_rows df"
    by (auto simp: generate_synthetic_data_def Let_def split: if_splits)
  show "sorted (map (\<lambda>r. (TimeStamp r, OBJECTID r)) rows)"
    unfolding rows by (rule sorted_sort_rows)
  show "sort_rows rows = rows"
    unfolding rows by (rule sort_rows_idem)
next
  assume h: "mset completed' = mset completed \<and>
    generate_synthetic_data ps s e nm base v draws completed = Inr rows \<and>
    generate_synthetic_data ps s e nm base v draws completed' = Inr rows'"
  then have h1: "mset completed' = mset completed"
    and h2: "generate_synthetic_data ps s e nm base v draws completed = Inr rows"
    and h3: "generate_synthetic_data ps s e nm base v draws completed' = Inr rows'"
    by simp_all
  have *: "mset rows' = mset rows \<and>
      map (\<lambda>r. (TimeStamp r, OBJECTID r)) rows' = map (\<lambda>r. (TimeStamp r, OBJECTID r)) rows"
    using h1 h2 h3 by (rule generate_synthetic_data_order)
  from * show "mset rows' = mset rows" ..
  from * show "map (\<lambda>r. (TimeStamp r, OBJECTID r)) rows' =
      map (\<lambda>r. (TimeStamp r, OBJECTID r)) rows" ..
next
  assume "0 \<le> iv"
  then show "sorted (map (\<lambda>x. (MeterID x, wcg_TimeStamp x))
        (wcg_generate_synthetic_data pd nm' np iv start q))"
    by (rule wcg_output_sorted)
qed

theorem merged_order_witness:
  "generate_synthetic_data ex_patterns 0 15 2 7 (1 / 10) (\<lambda>i. ex_rng) [1, 0] =
     Inr [\<lparr>OBJECTID = 7, TimeStamp = 0, Consumption = 10\<rparr>,
          \<lparr>OBJECTID = 8, TimeStamp = 0, Consumption = 10\<rparr>,
          \<lparr>OBJECTID = 7, TimeStamp = 15, Consumption = 0\<rparr>,
          \<lparr>OBJECTID = 8, TimeStamp = 15, Consumption = 0\<rparr>] \<and>
   generate_synthetic_data ex_patterns 0 15 2 7 (1 / 10) (\<lambda>i. ex_rng) [0, 1] =
     Inr [\<lparr>OBJECTID = 7, TimeStamp = 0, Consumption = 10\<rparr>,
          \<lparr>OBJECTID = 8, TimeStamp = 0, Consumption = 10\<rparr>,
          \<lparr>OBJECTID = 7, TimeStamp = 15, Consumption = 0\<rparr>,
          \<lparr>OBJECTID = 8, TimeStamp = 15, Consumption = 0\<rparr>] \<and>
   mset [0, 1 :: nat] = mset [1, 0] \<and>
   sorted [(0, 7), (0, 8), (15, 7), (15 :: int, 8 :: int)] \<and>
   (0 :: int) \<le> 15 \<and>
   sorted (map (\<lambda>x. (MeterID x, wcg_TimeStamp x))
     (wcg_generate_synthetic_data ex_data 2 2 15 0 ex_rng))"
  using merged_order [where ps = ex_patterns and s = 0 and e = 15 and nm = 2 and base = 7
      and v = "1 / 10" and draws = "\<lambda>i. ex_rng" and completed = "[1, 0]"
      and completed' = "[0, 1]"
      and rows = "[\<lparr>OBJECTID = 7, TimeStamp = 0, Consumption = 10\<rparr>,
          \<lparr>OBJECTID = 8, TimeStamp = 0, Consumption = 10\<rparr>,
          \<lparr>OBJECTID = 7, TimeStamp = 15, Consumption = 0\<rparr>,
          \<lparr>OBJECTID = 8, TimeStamp = 15, Consumption = 0\<rparr>]"
      and rows' = "[\<lparr>OBJECTID = 7, TimeStamp = 0, Consumption = 10\<rparr>,
          \<lparr>OBJECTID = 8, TimeStamp = 0, Consumption = 10\<rparr>,
          \<lparr>OBJECTID = 7, TimeStamp = 15, Consumption = 0\<rparr>,
          \<lparr>OBJECTID = 8, TimeStamp = 15, Consumption = 0\<rparr>]"
      and iv = 15 and pd = ex_data and nm' = 2 and np = 2 and start = 0 and q = ex_rng]
    ex_slot_output ex_slot_output_other
  by simp

end
